theory Spec2Isabelle
  imports Main
begin

section \<open>The GitHub auth provider: \<^verbatim>\<open>github-auth-provider/main.go\<close>\<close>

text \<open>
  The program is one \<^verbatim>\<open>main\<close> function. It reads the process environment, fills the
  option structs of the oauth2-proxy library, builds the proxy, registers four routes on
  an \<^verbatim>\<open>http.ServeMux\<close> and serves on the loopback interface. The model follows it line
  by line. Everything \<^verbatim>\<open>main\<close> calls in other packages (the base64 decoder, the
  oauth2-proxy library, the HTTP listener) is an input of the model, collected in the
  record \<open>externals\<close>; every \<^verbatim>\<open>os.Exit\<close> is a value.
\<close>

subsection \<open>The process environment\<close>

type_synonym environ = "string \<rightharpoonup> string"

text \<open>\<^verbatim>\<open>os.Getenv\<close>: the value of the variable, the empty string when it is unset.\<close>

definition os_Getenv :: "environ \<Rightarrow> string \<Rightarrow> string" where
  "os_Getenv env key = (case env key of None \<Rightarrow> [] | Some v \<Rightarrow> v)"

subsection \<open>Go errors\<close>

text \<open>
  An \<^verbatim>\<open>error\<close> value is a message, possibly wrapping another error; the sentinel
  \<^verbatim>\<open>http.ErrServerClosed\<close> is a constructor of its own. A nil error is \<open>None\<close>.
\<close>

datatype go_error =
    ErrServerClosed
  | ErrorString string
  | WrapError string go_error

fun Error :: "go_error \<Rightarrow> string" where
  "Error ErrServerClosed = ''http: Server closed''"
| "Error (ErrorString msg) = msg"
| "Error (WrapError msg e) = msg"

text \<open>\<^verbatim>\<open>errors.Is\<close> walks the chain of wrapped errors; a nil error is no error at all.\<close>

fun Is_chain :: "go_error \<Rightarrow> go_error \<Rightarrow> bool" where
  "Is_chain ErrServerClosed target = (target = ErrServerClosed)"
| "Is_chain (ErrorString msg) target = (target = ErrorString msg)"
| "Is_chain (WrapError msg e) target = (target = WrapError msg e \<or> Is_chain e target)"

definition errors_Is :: "go_error option \<Rightarrow> go_error \<Rightarrow> bool" where
  "errors_Is err target = (case err of None \<Rightarrow> False | Some e \<Rightarrow> Is_chain e target)"

text \<open>The verb \<^verbatim>\<open>%v\<close> of \<^verbatim>\<open>fmt.Printf\<close> on an error.\<close>

definition fmt_v :: "go_error option \<Rightarrow> string" where
  "fmt_v err = (case err of None \<Rightarrow> ''<nil>'' | Some e \<Rightarrow> Error e)"

subsection \<open>Functions of package \<^verbatim>\<open>strings\<close> and \<^verbatim>\<open>time\<close>\<close>

definition strings_HasPrefix :: "string \<Rightarrow> string \<Rightarrow> bool" where
  "strings_HasPrefix s pre = (length pre \<le> length s \<and> take (length pre) s = pre)"

definition strings_HasSuffix :: "string \<Rightarrow> string \<Rightarrow> bool" where
  "strings_HasSuffix s suf = (length suf \<le> length s \<and> drop (length s - length suf) s = suf)"

text \<open>
  \<^verbatim>\<open>strings.Split(s, sep)\<close>: the pieces of \<open>s\<close> between the occurrences of \<open>sep\<close>, found
  from the left; an empty separator splits after every byte, and the empty string then
  has no piece at all. \<open>piece\<close> holds the bytes of the current piece, last byte first.
\<close>

function split_from :: "string \<Rightarrow> string \<Rightarrow> string \<Rightarrow> string list" where
  "split_from sep piece [] = [rev piece]"
| "split_from sep piece (c # cs) =
     (if sep \<noteq> [] \<and> strings_HasPrefix (c # cs) sep
      then rev piece # split_from sep [] (drop (length sep) (c # cs))
      else split_from sep (c # piece) cs)"
  by pat_completeness auto
termination
  by (relation "measure (\<lambda>(sep, piece, s). length s)") auto

definition strings_Split :: "string \<Rightarrow> string \<Rightarrow> string list" where
  "strings_Split s sep = (if sep = [] then map (\<lambda>c. [c]) s else split_from sep [] s)"

text \<open>A \<^verbatim>\<open>time.Duration\<close> counts nanoseconds.\<close>

definition time_Nanosecond :: int where "time_Nanosecond = 1"
definition time_Microsecond :: int where "time_Microsecond = 1000 * time_Nanosecond"
definition time_Millisecond :: int where "time_Millisecond = 1000 * time_Microsecond"
definition time_Second :: int where "time_Second = 1000 * time_Millisecond"
definition time_Minute :: int where "time_Minute = 60 * time_Second"
definition time_Hour :: int where "time_Hour = 60 * time_Minute"

subsection \<open>The option structs\<close>

text \<open>
  The fields of the oauth2-proxy structs that \<^verbatim>\<open>main\<close> reads or writes. The fields of
  \<^verbatim>\<open>LegacyProvider\<close> carry the prefix \<open>Legacy\<close>, since several of them are named as fields
  of \<open>Options\<close> are.
\<close>

record LegacyProvider =
  LegacyProviderType :: string
  LegacyProviderName :: string
  LegacyClientID :: string
  LegacyClientSecret :: string
  LegacyGitHubTeam :: string
  LegacyGitHubOrg :: string
  LegacyGitHubRepo :: string
  LegacyGitHubToken :: string
  LegacyGitHubUsers :: "string list"

record LegacyOptions =
  LegacyProvider :: LegacyProvider

record Cookie =
  Name :: string
  Secret :: string
  Refresh :: int
  Secure :: bool

record Server =
  BindAddress :: string

record OAuthProxyOptions =
  Server :: Server
  MetricsServer :: Server
  Cookie :: Cookie
  RawRedirectURL :: string
  EmailDomains :: "string list"
  AuthenticatedEmailsFile :: string

text \<open>The struct \<^verbatim>\<open>Options\<close> of \<^verbatim>\<open>main.go\<close>; a \<^verbatim>\<open>*string\<close> field is an option.\<close>

record Options =
  ClientID :: string
  ClientSecret :: string
  ObotServerURL :: string
  AuthCookieSecret :: string
  AuthEmailDomains :: string
  GitHubTeams :: "string option"
  GitHubOrg :: "string option"
  GitHubRepo :: "string option"
  GitHubToken :: "string option"
  GitHubAllowUsers :: "string option"

subsection \<open>Loading the options\<close>

text \<open>
  Modelled from the spec: \<^verbatim>\<open>env.LoadEnvForStruct\<close> of package
  \<^verbatim>\<open>auth-providers-common/pkg/env\<close>, which is not among the sources. The spec has the
  options "populated once at process start from environment variables", each field from
  the variable of its \<^verbatim>\<open>env\<close> tag, with \<^verbatim>\<open>OBOT_AUTH_PROVIDER_EMAIL_DOMAINS\<close> having the
  default \<^verbatim>\<open>*\<close> (the \<^verbatim>\<open>default\<close> tag of the field) and the \<^verbatim>\<open>optional\<close> fields being
  absent without their variable. A default stands in where \<^verbatim>\<open>os.Getenv\<close> gives the empty
  string, as \<^verbatim>\<open>main\<close> does it for \<^verbatim>\<open>PORT\<close>. The spec says that loading can fail and not
  when: whether it does is an input, \<open>load_error\<close>.
\<close>

definition env_default :: "string \<Rightarrow> string \<Rightarrow> string" where
  "env_default dflt v = (if v = [] then dflt else v)"

definition env_optional :: "string \<Rightarrow> string option" where
  "env_optional v = (if v = [] then None else Some v)"

definition LoadEnvForStruct :: "(environ \<Rightarrow> go_error option) \<Rightarrow> environ \<Rightarrow> go_error + Options" where
  "LoadEnvForStruct load_error env =
     (case load_error env of
        Some e \<Rightarrow> Inl e
      | None \<Rightarrow> Inr
          \<lparr> ClientID = os_Getenv env ''OBOT_GITHUB_AUTH_PROVIDER_CLIENT_ID'',
            ClientSecret = os_Getenv env ''OBOT_GITHUB_AUTH_PROVIDER_CLIENT_SECRET'',
            ObotServerURL = os_Getenv env ''OBOT_SERVER_URL'',
            AuthCookieSecret = os_Getenv env ''OBOT_AUTH_PROVIDER_COOKIE_SECRET'',
            AuthEmailDomains = env_default ''*'' (os_Getenv env ''OBOT_AUTH_PROVIDER_EMAIL_DOMAINS''),
            GitHubTeams = env_optional (os_Getenv env ''OBOT_GITHUB_AUTH_PROVIDER_TEAMS''),
            GitHubOrg = env_optional (os_Getenv env ''OBOT_GITHUB_AUTH_PROVIDER_ORG''),
            GitHubRepo = env_optional (os_Getenv env ''OBOT_GITHUB_AUTH_PROVIDER_REPO''),
            GitHubToken = env_optional (os_Getenv env ''OBOT_GITHUB_AUTH_PROVIDER_TOKEN''),
            GitHubAllowUsers = env_optional (os_Getenv env ''OBOT_GITHUB_AUTH_PROVIDER_ALLOW_USERS'') \<rparr>)"

subsection \<open>What \<^verbatim>\<open>main\<close> calls in other packages\<close>

text \<open>
  The request handlers that \<^verbatim>\<open>main\<close> registers: its own closure, which captures the
  port; the two handlers built by packages \<^verbatim>\<open>state\<close> and \<^verbatim>\<open>icon\<close>; and the method
  \<^verbatim>\<open>ServeHTTP\<close> of the proxy. A mux is the list of its registrations, pattern and handler,
  in the order of the \<^verbatim>\<open>HandleFunc\<close> calls.
\<close>

datatype icon_fetcher = FetchGitHubProfileIconURL

datatype 'p handler =
    LocalBaseURL string
  | ObotGetState 'p
  | ObotGetIconURL icon_fetcher
  | OAuthProxyServeHTTP 'p

type_synonym 'p ServeMux = "(string \<times> 'p handler) list"

text \<open>
  \<^verbatim>\<open>http.ListenAndServe\<close> blocks while the server runs. It may never return; when it
  does, it returns an error.
\<close>

datatype listen_result = Blocks | Returns "go_error option"

text \<open>
  \<open>'p\<close> is the type of the proxy (\<^verbatim>\<open>*OAuthProxy\<close>), \<open>'v\<close> that of the e-mail validator.
  \<^verbatim>\<open>validation.Validate\<close> takes the options by pointer and may change them, so it returns
  them with its error.
\<close>

record ('p, 'v) externals =
  LoadEnv_error :: "environ \<Rightarrow> go_error option"
  base64_DecodeString :: "string \<Rightarrow> go_error + string"
  NewLegacyOptions :: LegacyOptions
  ToOptions :: "LegacyOptions \<Rightarrow> go_error + OAuthProxyOptions"
  Validate :: "OAuthProxyOptions \<Rightarrow> OAuthProxyOptions \<times> go_error option"
  NewValidator :: "string list \<Rightarrow> string \<Rightarrow> 'v"
  NewOAuthProxy :: "OAuthProxyOptions \<Rightarrow> 'v \<Rightarrow> go_error + 'p"
  ListenAndServe :: "string \<Rightarrow> 'p ServeMux \<Rightarrow> listen_result"

subsection \<open>\<^verbatim>\<open>main\<close>, lines 35 to 85: from the environment to the proxy options\<close>

text \<open>
  Each \<^verbatim>\<open>os.Exit\<close> call of \<^verbatim>\<open>main\<close> has a name; a failure records where the process
  exited, what it had printed and the exit status.
\<close>

datatype exit_site =
    LoadOptions
  | DecodeCookieSecret
  | ConvertLegacyOptions
  | ValidateOptions
  | CreateProxy
  | ListenAndServeFailed

datatype failure = Failure (site: exit_site) (printed: string) (status: int)

text \<open>Lines 47 to 68: the legacy options, from the library's fresh ones.\<close>

definition legacy_options :: "LegacyOptions \<Rightarrow> Options \<Rightarrow> LegacyOptions" where
  "legacy_options legacyOpts opts =
     (let p = (LegacyProvider legacyOpts)
                \<lparr> LegacyProviderType := ''github'',
                  LegacyProviderName := ''github'',
                  LegacyClientID := ClientID opts,
                  LegacyClientSecret := ClientSecret opts \<rparr>;
          p = (case GitHubTeams opts of None \<Rightarrow> p | Some v \<Rightarrow> p\<lparr>LegacyGitHubTeam := v\<rparr>);
          p = (case GitHubOrg opts of None \<Rightarrow> p | Some v \<Rightarrow> p\<lparr>LegacyGitHubOrg := v\<rparr>);
          p = (case GitHubRepo opts of None \<Rightarrow> p | Some v \<Rightarrow> p\<lparr>LegacyGitHubRepo := v\<rparr>);
          p = (case GitHubToken opts of None \<Rightarrow> p | Some v \<Rightarrow> p\<lparr>LegacyGitHubToken := v\<rparr>);
          p = (case GitHubAllowUsers opts of None \<Rightarrow> p
               | Some v \<Rightarrow> p\<lparr>LegacyGitHubUsers := strings_Split v '',''\<rparr>)
      in legacyOpts\<lparr>LegacyProvider := p\<rparr>)"

text \<open>Lines 76 to 85: the assignments to the options that \<^verbatim>\<open>ToOptions\<close> returned.\<close>

definition proxy_options :: "Options \<Rightarrow> string \<Rightarrow> OAuthProxyOptions \<Rightarrow> OAuthProxyOptions" where
  "proxy_options opts cookieSecret oauthProxyOpts =
     (let c = oauthProxyOpts\<lparr>Server := (Server oauthProxyOpts)\<lparr>BindAddress := []\<rparr>\<rparr>;
          c = c\<lparr>MetricsServer := (MetricsServer c)\<lparr>BindAddress := []\<rparr>\<rparr>;
          c = c\<lparr>Cookie := (Cookie c)\<lparr>Refresh := time_Hour\<rparr>\<rparr>;
          c = c\<lparr>Cookie := (Cookie c)\<lparr>Name := ''obot_access_token''\<rparr>\<rparr>;
          c = c\<lparr>Cookie := (Cookie c)\<lparr>Secret := cookieSecret\<rparr>\<rparr>;
          c = c\<lparr>Cookie := (Cookie c)\<lparr>Secure := strings_HasPrefix (ObotServerURL opts) ''https://''\<rparr>\<rparr>;
          c = c\<lparr>RawRedirectURL := ObotServerURL opts @ ''/oauth2/callback''\<rparr>
      in if AuthEmailDomains opts \<noteq> []
         then c\<lparr>EmailDomains := strings_Split (AuthEmailDomains opts) '',''\<rparr>
         else c)"

text \<open>
  Lines 35 to 85. The result is the value of \<^verbatim>\<open>oauthProxyOpts\<close> that line 87 hands to
  \<^verbatim>\<open>validation.Validate\<close>, or the exit taken before.
\<close>

definition configure :: "('p, 'v) externals \<Rightarrow> environ \<Rightarrow> failure + OAuthProxyOptions" where
  "configure X env =
     (case LoadEnvForStruct (LoadEnv_error X) env of
        Inl err \<Rightarrow>
          Inl (Failure LoadOptions (''failed to load options: '' @ fmt_v (Some err) @ ''\<newline>'') 1)
      | Inr opts \<Rightarrow>
     (case base64_DecodeString X (AuthCookieSecret opts) of
        Inl err \<Rightarrow>
          Inl (Failure DecodeCookieSecret
                 (''failed to decode cookie secret: '' @ fmt_v (Some err) @ ''\<newline>'') 1)
      | Inr cookieSecret \<Rightarrow>
     (case ToOptions X (legacy_options (NewLegacyOptions X) opts) of
        Inl err \<Rightarrow>
          Inl (Failure ConvertLegacyOptions
                 (''failed to convert legacy options to new options: '' @ fmt_v (Some err)
                    @ ''\<newline>'') 1)
      | Inr oauthProxyOpts \<Rightarrow> Inr (proxy_options opts cookieSecret oauthProxyOpts))))"

subsection \<open>\<^verbatim>\<open>main\<close>, lines 87 to 109: the proxy, the port and the routes\<close>

text \<open>Lines 103 to 109: the four registrations, in order.\<close>

definition routes :: "string \<Rightarrow> 'p \<Rightarrow> 'p ServeMux" where
  "routes port oauthProxy =
     [ (''/{$}'', LocalBaseURL port),
       (''/obot-get-state'', ObotGetState oauthProxy),
       (''/obot-get-icon-url'', ObotGetIconURL FetchGitHubProfileIconURL),
       (''/'', OAuthProxyServeHTTP oauthProxy) ]"

record 'p server =
  srv_proxy :: 'p
  srv_port :: string
  srv_mux :: "'p ServeMux"

definition startup :: "('p, 'v) externals \<Rightarrow> environ \<Rightarrow> failure + 'p server" where
  "startup X env =
     (case configure X env of
        Inl f \<Rightarrow> Inl f
      | Inr oauthProxyOpts \<Rightarrow>
     (case Validate X oauthProxyOpts of
        (validated, Some err) \<Rightarrow>
          Inl (Failure ValidateOptions
                 (''failed to validate options: '' @ fmt_v (Some err) @ ''\<newline>'') 1)
      | (validated, None) \<Rightarrow>
     (case NewOAuthProxy X validated
             (NewValidator X (EmailDomains validated) (AuthenticatedEmailsFile validated)) of
        Inl err \<Rightarrow>
          Inl (Failure CreateProxy
                 (''failed to create oauth2 proxy: '' @ fmt_v (Some err) @ ''\<newline>'') 1)
      | Inr p \<Rightarrow>
          (let port = os_Getenv env ''PORT'';
               port = (if port = [] then ''9999'' else port)
           in Inr \<lparr> srv_proxy = p, srv_port = port, srv_mux = routes port p \<rparr>))))"

subsection \<open>\<^verbatim>\<open>main\<close>, lines 111 to 115: serving\<close>

text \<open>
  A run of the process: what it printed; the address and the mux it gave to
  \<^verbatim>\<open>http.ListenAndServe\<close>, if it got there; its exit status, \<open>None\<close> while the server
  runs and 0 when \<^verbatim>\<open>main\<close> returns; and the \<^verbatim>\<open>os.Exit\<close> call that ended it, if one did.
\<close>

record 'p run =
  stdout :: string
  listener :: "(string \<times> 'p ServeMux) option"
  exit_status :: "int option"
  exit_at :: "exit_site option"

definition main :: "('p, 'v) externals \<Rightarrow> environ \<Rightarrow> 'p run" where
  "main X env =
     (case startup X env of
        Inl f \<Rightarrow>
          \<lparr> stdout = printed f, listener = None,
            exit_status = Some (status f), exit_at = Some (site f) \<rparr>
      | Inr srv \<Rightarrow>
          (let out = ''listening on 127.0.0.1:'' @ srv_port srv @ ''\<newline>'';
               addr = ''127.0.0.1:'' @ srv_port srv
           in case ListenAndServe X addr (srv_mux srv) of
                Blocks \<Rightarrow>
                  \<lparr> stdout = out, listener = Some (addr, srv_mux srv),
                    exit_status = None, exit_at = None \<rparr>
              | Returns err \<Rightarrow>
                  if \<not> errors_Is err ErrServerClosed
                  then \<lparr> stdout = out @ ''failed to listen and serve: '' @ fmt_v err @ ''\<newline>'',
                         listener = Some (addr, srv_mux srv),
                         exit_status = Some 1, exit_at = Some ListenAndServeFailed \<rparr>
                  else \<lparr> stdout = out, listener = Some (addr, srv_mux srv),
                         exit_status = Some 0, exit_at = None \<rparr>))"

subsection \<open>Dispatch by \<^verbatim>\<open>http.ServeMux\<close>\<close>

text \<open>
  \<^verbatim>\<open>http.ListenAndServe\<close> hands every request to the mux, and the mux chooses who answers.
  The model follows \<^verbatim>\<open>net/http\<close> (Go 1.22 and later, where the pattern \<^verbatim>\<open>/{$}\<close> exists) for
  patterns without method and host, which are all that \<^verbatim>\<open>main\<close> registers. Of a request
  it takes the method and the escaped path (\<^verbatim>\<open>r.URL.EscapedPath()\<close>); the request URI
  \<^verbatim>\<open>*\<close> is the one whose escaped path is \<^verbatim>\<open>*\<close>.
\<close>

text \<open>
  \<^verbatim>\<open>url.PathUnescape\<close>: every \<^verbatim>\<open>%\<close> is followed by two hexadecimal digits and the three
  bytes stand for one; \<open>None\<close> is its error. \<^verbatim>\<open>pathUnescape\<close> of \<^verbatim>\<open>net/http\<close> keeps the
  string as it is on that error.
\<close>

definition ishex :: "char \<Rightarrow> bool" where
  "ishex c = (c \<in> set ''0123456789abcdefABCDEF'')"

definition unhex :: "char \<Rightarrow> nat" where
  "unhex c =
     (if c \<in> set ''0123456789'' then of_char c - 48
      else if c \<in> set ''abcdef'' then of_char c - 87
      else of_char c - 55)"

fun url_PathUnescape :: "string \<Rightarrow> string option" where
  "url_PathUnescape [] = Some []"
| "url_PathUnescape (c # cs) =
     (if c = CHR ''%''
      then (case cs of
              h # l # rest \<Rightarrow>
                (if ishex h \<and> ishex l
                 then map_option ((#) (char_of (16 * unhex h + unhex l))) (url_PathUnescape rest)
                 else None)
            | _ \<Rightarrow> None)
      else map_option ((#) c) (url_PathUnescape cs))"

definition pathUnescape :: "string \<Rightarrow> string" where
  "pathUnescape s = (case url_PathUnescape s of None \<Rightarrow> s | Some u \<Rightarrow> u)"

text \<open>
  A pattern is its list of segments. A literal segment is kept unescaped; a final
  \<^verbatim>\<open>{$}\<close> is the literal segment \<^verbatim>\<open>/\<close>; a final slash is a nameless wildcard for the rest
  of the path. \<open>parse_segments\<close> reads a pattern from one of its slashes on. The patterns
  that \<^verbatim>\<open>HandleFunc\<close> refuses with a panic are none of those that \<^verbatim>\<open>main\<close> registers.
\<close>

datatype segment = Literal string | Wildcard | MultiWildcard

definition is_multi :: "segment \<Rightarrow> bool" where
  "is_multi s = (s = MultiWildcard)"

definition parse_wildcard :: "string \<Rightarrow> segment" where
  "parse_wildcard seg =
     (if CHR ''{'' \<in> set seg
      then (if strings_HasSuffix seg ''...}'' then MultiWildcard else Wildcard)
      else Literal (pathUnescape seg))"

function parse_segments :: "string \<Rightarrow> segment list" where
  "parse_segments [] = []"
| "parse_segments (c # rest) =
     (if rest = [] then [MultiWildcard]
      else if takeWhile (\<lambda>x. x \<noteq> CHR ''/'') rest = ''{$}'' then [Literal ''/'']
      else parse_wildcard (takeWhile (\<lambda>x. x \<noteq> CHR ''/'') rest)
             # parse_segments (dropWhile (\<lambda>x. x \<noteq> CHR ''/'') rest))"
  by pat_completeness auto
termination
  by (relation "measure length") (auto simp: length_dropWhile_le less_Suc_eq_le)

text \<open>
  The routing tree, as the list of the patterns below a node, each with the segments it
  has still to match: \<open>child k n\<close> is the node below \<open>n\<close> for the segment \<open>k\<close>, empty when
  there is none, and \<open>node_pattern n\<close> the pattern that ends at \<open>n\<close>.
\<close>

type_synonym 'h leaf = "segment list \<times> 'h"
type_synonym 'h node = "(segment list \<times> 'h leaf) list"

definition child :: "segment \<Rightarrow> 'h node \<Rightarrow> 'h node" where
  "child k n = map (\<lambda>e. (tl (fst e), snd e)) (filter (\<lambda>e. fst e \<noteq> [] \<and> hd (fst e) = k) n)"

definition node_pattern :: "'h node \<Rightarrow> 'h leaf option" where
  "node_pattern n = map_option snd (find (\<lambda>e. fst e = []) n)"

text \<open>
  \<^verbatim>\<open>firstSegment\<close>: the first segment of a path, unescaped, and the rest of the path; the
  path \<^verbatim>\<open>/\<close> has the segment \<^verbatim>\<open>/\<close>.
\<close>

definition firstSegment :: "string \<Rightarrow> string \<times> string" where
  "firstSegment path =
     (if path = ''/'' then (''/'', [])
      else (pathUnescape (takeWhile (\<lambda>c. c \<noteq> CHR ''/'') (tl path)),
            dropWhile (\<lambda>c. c \<noteq> CHR ''/'') (tl path)))"

text \<open>
  \<^verbatim>\<open>matchPath\<close>: a literal segment is tried first, then a wildcard for one segment (which
  does not match a final slash), then the wildcard for the rest.
\<close>

function matchPath :: "'h node \<Rightarrow> string \<Rightarrow> 'h leaf option" where
  "matchPath n path =
     (if n = [] then None
      else if path = [] then node_pattern n
      else (case matchPath (child (Literal (fst (firstSegment path))) n) (snd (firstSegment path)) of
              Some l \<Rightarrow> Some l
            | None \<Rightarrow>
           (case (if fst (firstSegment path) \<noteq> ''/''
                  then matchPath (child Wildcard n) (snd (firstSegment path)) else None) of
              Some l \<Rightarrow> Some l
            | None \<Rightarrow> node_pattern (child MultiWildcard n))))"
  by pat_completeness auto
termination
  by (relation "measure (\<lambda>(n, path). length path)")
     (auto simp: firstSegment_def neq_Nil_conv length_dropWhile_le less_Suc_eq_le)

declare matchPath.simps [simp del]

definition tree :: "'p ServeMux \<Rightarrow> 'p handler node" where
  "tree m = map (\<lambda>r. (parse_segments (fst r), (parse_segments (fst r), snd r))) m"

text \<open>
  \<^verbatim>\<open>exactMatch\<close>, and \<^verbatim>\<open>matchOrRedirect\<close>: a path without a final slash that matches no
  pattern exactly, while the path with the slash added does, is redirected there. The
  second component of the result says so; \<open>try_redirect\<close> is false where the code passes
  no URL.
\<close>

definition exactMatch :: "'h leaf option \<Rightarrow> string \<Rightarrow> bool" where
  "exactMatch n path =
     (case n of
        None \<Rightarrow> False
      | Some l \<Rightarrow>
          (if \<not> is_multi (last (fst l)) then True
           else if path \<noteq> [] \<and> last path \<noteq> CHR ''/'' then False
           else length (fst l) = count_list path (CHR ''/'')))"

definition matchOrRedirect :: "'h node \<Rightarrow> string \<Rightarrow> bool \<Rightarrow> 'h leaf option \<times> bool" where
  "matchOrRedirect t path try_redirect =
     (if \<not> exactMatch (matchPath t path) path \<and> try_redirect \<and> \<not> strings_HasSuffix path ''/''
         \<and> exactMatch (matchPath t (path @ ''/'')) (path @ ''/'')
      then (None, True)
      else (matchPath t path, False))"

text \<open>
  \<^verbatim>\<open>path.Clean\<close> on a path that starts with a slash: empty elements and \<^verbatim>\<open>.\<close> go, \<^verbatim>\<open>..\<close>
  takes the element before it with it, and has nothing to take at the root.
  \<^verbatim>\<open>cleanPath\<close> of \<^verbatim>\<open>net/http\<close> puts a slash in front where there is none and keeps a final
  slash.
\<close>

fun clean_elements :: "string list \<Rightarrow> string list \<Rightarrow> string list" where
  "clean_elements out [] = out"
| "clean_elements out (e # es) =
     (if e = [] \<or> e = ''.'' then clean_elements out es
      else if e = ''..'' then clean_elements (butlast out) es
      else clean_elements (out @ [e]) es)"

definition path_Clean :: "string \<Rightarrow> string" where
  "path_Clean p =
     (case clean_elements [] (strings_Split (tl p) ''/'') of
        [] \<Rightarrow> ''/''
      | es \<Rightarrow> concat (map ((#) CHR ''/'') es))"

definition cleanPath :: "string \<Rightarrow> string" where
  "cleanPath p =
     (if p = [] then ''/''
      else (let p = (if hd p \<noteq> CHR ''/'' then CHR ''/'' # p else p);
                np = path_Clean p
            in if last p = CHR ''/'' \<and> np \<noteq> ''/'' then np @ ''/'' else np))"

text \<open>
  Who answers a request: one of the registered handlers, or the mux itself with a
  redirect (status 301), with "not found" (404) or, for the request URI \<^verbatim>\<open>*\<close>, with "bad
  request" (400); the server answers \<^verbatim>\<open>OPTIONS *\<close> before the mux sees it.
\<close>

datatype 'p answer =
    Handler "'p handler"
  | Redirect
  | NotFound
  | BadRequest
  | GlobalOptions

text \<open>\<^verbatim>\<open>findHandler\<close>: the path of a request other than \<^verbatim>\<open>CONNECT\<close> is cleaned first.\<close>

definition found :: "'p handler leaf option \<Rightarrow> 'p answer" where
  "found n = (case n of None \<Rightarrow> NotFound | Some l \<Rightarrow> Handler (snd l))"

definition findHandler :: "'p ServeMux \<Rightarrow> string \<Rightarrow> string \<Rightarrow> 'p answer" where
  "findHandler m method escapedPath =
     (if method = ''CONNECT''
      then (if snd (matchOrRedirect (tree m) escapedPath True) then Redirect
            else found (fst (matchOrRedirect (tree m) escapedPath False)))
      else (let path = cleanPath escapedPath
            in if snd (matchOrRedirect (tree m) path True) then Redirect
               else if path \<noteq> escapedPath then Redirect
               else found (fst (matchOrRedirect (tree m) path True))))"

definition serve_request :: "'p ServeMux \<Rightarrow> string \<Rightarrow> string \<Rightarrow> 'p answer" where
  "serve_request m method escapedPath =
     (if escapedPath = ''*''
      then (if method = ''OPTIONS'' then GlobalOptions else BadRequest)
      else findHandler m method escapedPath)"

text \<open>
  Line 105: the body that the handler of \<^verbatim>\<open>main\<close> itself writes. What the other three
  handlers write is decided in their own packages, hence \<open>None\<close>.
\<close>

fun written_body :: "'p handler \<Rightarrow> string option" where
  "written_body (LocalBaseURL port) = Some (''http://127.0.0.1:'' @ port)"
| "written_body (ObotGetState p) = None"
| "written_body (ObotGetIconURL f) = None"
| "written_body (OAuthProxyServeHTTP p) = None"

section \<open>The workspace tool: the script of "Workspace Files"\<close>

text \<open>
  The script copies \<^verbatim>\<open>GPTSCRIPT_CONTEXT\<close> to the shell variable \<^verbatim>\<open>FILES\<close>, replaces an empty
  value by a fixed sentence and prints a here-document. The delimiter of the
  here-document is unquoted, so the shell expands the parameters in its text, and does
  not look again at what it has put in. The text has no backslash, backquote, brace or
  parenthesis after a dollar sign, so the expansion of \<^verbatim>\<open>$NAME\<close> is all there is to model.
\<close>

definition is_name_char :: "char \<Rightarrow> bool" where
  "is_name_char c =
     (c \<in> set ''ABCDEFGHIJKLMNOPQRSTUVWXYZabcdefghijklmnopqrstuvwxyz0123456789_'')"

text \<open>The value of the parameter \<open>name\<close>; a dollar sign before no name stands for itself.\<close>

definition parameter :: "environ \<Rightarrow> string \<Rightarrow> string" where
  "parameter vars name = (if name = [] then ''$'' else os_Getenv vars name)"

text \<open>
  \<open>expand vars reading text\<close>: \<open>reading\<close> is \<open>Some name\<close> after a dollar sign, \<open>name\<close>
  being the part of the name read so far.
\<close>

fun expand :: "environ \<Rightarrow> string option \<Rightarrow> string \<Rightarrow> string" where
  "expand vars None [] = []"
| "expand vars (Some name) [] = parameter vars name"
| "expand vars None (c # cs) =
     (if c = CHR ''$'' then expand vars (Some []) cs else c # expand vars None cs)"
| "expand vars (Some name) (c # cs) =
     (if is_name_char c then expand vars (Some (name @ [c])) cs
      else parameter vars name @
        (if c = CHR ''$'' then expand vars (Some []) cs else c # expand vars None cs))"

text \<open>Lines 134 to 144, each with its line end.\<close>

definition here_document :: string where
  \<open>here_document =
     ''# START INSTRUCTIONS: "Workspace Files"\<newline>'' @
     ''\<newline>'' @
     ''You have the ability to read, write, and copy files in a workspace which is specific to your user. Use the given\<newline>'' @
     ''workspace_read, workspace_write, and workspace_copy tools to interact with files. The files that you write are available for the user\<newline>'' @
     ''to read and write in their user interface. You can collaborate with the user by reading and writing these files.\<newline>'' @
     ''Do not ask first to create files in the workspace. Immediately write contents to the workspace as opposed to describing\<newline>'' @
     ''the contents to the user. If the user changes a file, they will inform you that content has changed, with the new\<newline>'' @
     ''contents of the file. The current files are available in the workspace for you to read if needed.\<newline>'' @
     ''\<newline>'' @
     ''$FILES\<newline>'' @
     ''# END INSTRUCTIONS: "Workspace Files"\<newline>''\<close>

text \<open>Lines 128 to 145: what the script prints, given its environment.\<close>

definition workspace_files :: "environ \<Rightarrow> string" where
  "workspace_files env =
     (let FILES = os_Getenv env ''GPTSCRIPT_CONTEXT'';
          FILES = (if FILES = [] then ''No files found in workspace'' else FILES)
      in expand (env(''FILES'' \<mapsto> FILES)) None here_document)"

section \<open>Stand-ins for the libraries, and an environment\<close>

text \<open>
  A decoder for base64 with the standard alphabet and padding, which skips line ends in
  its input, in place of \<^verbatim>\<open>base64.StdEncoding.DecodeString\<close>.
\<close>

definition base64_alphabet :: string where
  "base64_alphabet = ''ABCDEFGHIJKLMNOPQRSTUVWXYZabcdefghijklmnopqrstuvwxyz0123456789+/''"

fun index_from :: "nat \<Rightarrow> char \<Rightarrow> string \<Rightarrow> nat option" where
  "index_from i c [] = None"
| "index_from i c (x # xs) = (if c = x then Some i else index_from (Suc i) c xs)"

definition sextet :: "char \<Rightarrow> nat option" where
  "sextet c = index_from 0 c base64_alphabet"

definition three_bytes :: "nat \<Rightarrow> string" where
  "three_bytes n = [char_of (n div 65536), char_of (n div 256), char_of n]"

fun decode_quads :: "string \<Rightarrow> string option" where
  "decode_quads [] = Some []"
| "decode_quads [a, b, c, d] =
     (case (sextet a, sextet b) of
        (Some x, Some y) \<Rightarrow>
          (if c = CHR ''='' \<and> d = CHR ''='' then Some (take 1 (three_bytes ((x * 64 + y) * 4096)))
           else (case sextet c of
                   None \<Rightarrow> None
                 | Some z \<Rightarrow>
                     (if d = CHR ''='' then Some (take 2 (three_bytes (((x * 64 + y) * 64 + z) * 64)))
                      else (case sextet d of
                              None \<Rightarrow> None
                            | Some w \<Rightarrow> Some (three_bytes (((x * 64 + y) * 64 + z) * 64 + w))))))
      | _ \<Rightarrow> None)"
| "decode_quads (a # b # c # d # rest) =
     (case (sextet a, sextet b, sextet c, sextet d) of
        (Some x, Some y, Some z, Some w) \<Rightarrow>
          (case decode_quads rest of
             None \<Rightarrow> None
           | Some bytes \<Rightarrow> Some (three_bytes (((x * 64 + y) * 64 + z) * 64 + w) @ bytes))
      | _ \<Rightarrow> None)"
| "decode_quads _ = None"

definition std_DecodeString :: "string \<Rightarrow> go_error + string" where
  "std_DecodeString s =
     (case decode_quads (filter (\<lambda>c. c \<noteq> CHR 0x0D \<and> c \<noteq> CHR 0x0A) s) of
        None \<Rightarrow> Inl (ErrorString ''illegal base64 data'')
      | Some bytes \<Rightarrow> Inr bytes)"

text \<open>
  A library whose loader wants the server URL, whose conversion knows the provider
  \<^verbatim>\<open>github\<close>, whose validation wants an e-mail domain or a file of e-mails, and whose
  listener runs until it is shut down. Its proxy is the options it was built from.
\<close>

definition fresh_options :: OAuthProxyOptions where
  "fresh_options =
     \<lparr> Server = \<lparr>BindAddress = ''127.0.0.1:4180''\<rparr>,
       MetricsServer = \<lparr>BindAddress = ''127.0.0.1:9100''\<rparr>,
       Cookie = \<lparr>Name = ''_oauth2_proxy'', Secret = [], Refresh = 0, Secure = True\<rparr>,
       RawRedirectURL = [],
       EmailDomains = [],
       AuthenticatedEmailsFile = [] \<rparr>"

definition fresh_legacy_options :: LegacyOptions where
  "fresh_legacy_options =
     \<lparr> LegacyProvider =
         \<lparr> LegacyProviderType = ''google'', LegacyProviderName = [], LegacyClientID = [],
           LegacyClientSecret = [], LegacyGitHubTeam = [], LegacyGitHubOrg = [],
           LegacyGitHubRepo = [], LegacyGitHubToken = [], LegacyGitHubUsers = [] \<rparr> \<rparr>"

definition library :: "(OAuthProxyOptions, string list \<times> string) externals" where
  "library =
     \<lparr> LoadEnv_error = (\<lambda>env. if os_Getenv env ''OBOT_SERVER_URL'' = []
                              then Some (ErrorString ''missing OBOT_SERVER_URL'') else None),
       base64_DecodeString = std_DecodeString,
       NewLegacyOptions = fresh_legacy_options,
       ToOptions = (\<lambda>legacyOpts. if LegacyProviderType (LegacyProvider legacyOpts) = ''github''
                                  then Inr fresh_options
                                  else Inl (ErrorString ''unknown provider'')),
       Validate = (\<lambda>opts. (opts, if EmailDomains opts = [] \<and> AuthenticatedEmailsFile opts = []
                                  then Some (ErrorString ''missing setting for email validation'')
                                  else None)),
       NewValidator = Pair,
       NewOAuthProxy = (\<lambda>opts validator. if Secret (Cookie opts) = []
                                          then Inl (ErrorString ''missing setting: cookie-secret'')
                                          else Inr opts),
       ListenAndServe = (\<lambda>addr m. Returns (Some ErrServerClosed)) \<rparr>"

definition environment :: environ where
  "environment =
     [ ''OBOT_GITHUB_AUTH_PROVIDER_CLIENT_ID'' \<mapsto> ''client'',
       ''OBOT_GITHUB_AUTH_PROVIDER_CLIENT_SECRET'' \<mapsto> ''hush'',
       ''OBOT_SERVER_URL'' \<mapsto> ''https://obot.example'',
       ''OBOT_AUTH_PROVIDER_COOKIE_SECRET'' \<mapsto> ''c2VjcmV0'' ]"

text \<open>What that library makes of that environment: the options loaded, and the proxy options.\<close>

definition loaded_options :: Options where
  "loaded_options =
     \<lparr> ClientID = ''client'', ClientSecret = ''hush'', ObotServerURL = ''https://obot.example'',
       AuthCookieSecret = ''c2VjcmV0'', AuthEmailDomains = ''*'', GitHubTeams = None,
       GitHubOrg = None, GitHubRepo = None, GitHubToken = None, GitHubAllowUsers = None \<rparr>"

definition derived_options :: OAuthProxyOptions where
  "derived_options =
     \<lparr> Server = \<lparr>BindAddress = []\<rparr>,
       MetricsServer = \<lparr>BindAddress = []\<rparr>,
       Cookie = \<lparr>Name = ''obot_access_token'', Secret = ''secret'',
                  Refresh = 3600000000000, Secure = True\<rparr>,
       RawRedirectURL = ''https://obot.example/oauth2/callback'',
       EmailDomains = [''*''],
       AuthenticatedEmailsFile = [] \<rparr>"

section \<open>Properties of the option translation\<close>

subsection \<open>Auxiliary facts\<close>

lemma HasPrefix_iff: "strings_HasPrefix s pre = (\<exists>rest. s = pre @ rest)"
proof
  assume "strings_HasPrefix s pre"
  then have "take (length pre) s = pre" by (simp add: strings_HasPrefix_def)
  then have "s = pre @ drop (length pre) s" by (metis append_take_drop_id)
  then show "\<exists>rest. s = pre @ rest" ..
next
  assume "\<exists>rest. s = pre @ rest"
  then show "strings_HasPrefix s pre" by (auto simp: strings_HasPrefix_def)
qed

lemma LoadEnvForStruct_Inr:
  assumes "LoadEnvForStruct le env = Inr opts"
  shows "le env = None"
    and "ObotServerURL opts = os_Getenv env ''OBOT_SERVER_URL''"
    and "AuthCookieSecret opts = os_Getenv env ''OBOT_AUTH_PROVIDER_COOKIE_SECRET''"
    and "AuthEmailDomains opts = env_default ''*'' (os_Getenv env ''OBOT_AUTH_PROVIDER_EMAIL_DOMAINS'')"
  using assms by (auto simp: LoadEnvForStruct_def split: option.splits)

lemma configure_Inr:
  assumes "configure X env = Inr cfg"
  obtains opts cookieSecret base where
    "LoadEnvForStruct (LoadEnv_error X) env = Inr opts"
    "base64_DecodeString X (AuthCookieSecret opts) = Inr cookieSecret"
    "ToOptions X (legacy_options (NewLegacyOptions X) opts) = Inr base"
    "cfg = proxy_options opts cookieSecret base"
  using assms by (auto simp: configure_def split: sum.splits)

lemma proxy_options_fields:
  "RawRedirectURL (proxy_options opts secret base) = ObotServerURL opts @ ''/oauth2/callback''"
  "Secure (Cookie (proxy_options opts secret base)) = strings_HasPrefix (ObotServerURL opts) ''https://''"
  "Name (Cookie (proxy_options opts secret base)) = ''obot_access_token''"
  "Refresh (Cookie (proxy_options opts secret base)) = time_Hour"
  "Secret (Cookie (proxy_options opts secret base)) = secret"
  "BindAddress (Server (proxy_options opts secret base)) = []"
  "BindAddress (MetricsServer (proxy_options opts secret base)) = []"
  "AuthenticatedEmailsFile (proxy_options opts secret base) = AuthenticatedEmailsFile base"
  "EmailDomains (proxy_options opts secret base) =
     (if AuthEmailDomains opts = [] then EmailDomains base
      else strings_Split (AuthEmailDomains opts) '','')"
  by (simp_all add: proxy_options_def Let_def)

lemma time_Hour_ns: "time_Hour = 3600 * 10 ^ 9"
  by (simp add: time_Hour_def time_Minute_def time_Second_def time_Millisecond_def
      time_Microsecond_def time_Nanosecond_def)

subsection \<open>The stand-ins, evaluated\<close>

lemma std_DecodeString_example: "std_DecodeString ''c2VjcmV0'' = Inr ''secret''"
  by (simp add: std_DecodeString_def sextet_def base64_alphabet_def three_bytes_def char_of_def
      bit_iff_odd_drop_bit drop_bit_eq_div)

lemma load_example: "LoadEnvForStruct (LoadEnv_error library) environment = Inr loaded_options"
  by (simp add: LoadEnvForStruct_def library_def environment_def os_Getenv_def loaded_options_def
      env_default_def env_optional_def)

lemma library_fields:
  "LoadEnv_error library environment = None"
  "base64_DecodeString library = std_DecodeString"
  "NewLegacyOptions library = fresh_legacy_options"
  by (simp_all add: library_def environment_def os_Getenv_def)

lemma convert_example:
  "ToOptions library (legacy_options fresh_legacy_options loaded_options) = Inr fresh_options"
  by (simp add: library_def legacy_options_def fresh_legacy_options_def loaded_options_def)

lemma translate_example: "proxy_options loaded_options ''secret'' fresh_options = derived_options"
  by (simp add: proxy_options_def loaded_options_def fresh_options_def derived_options_def
      strings_HasPrefix_def strings_Split_def time_Hour_ns)

lemma configure_example: "configure library environment = Inr derived_options"
proof -
  have "AuthCookieSecret loaded_options = ''c2VjcmV0''"
    by (simp add: loaded_options_def)
  then show ?thesis
    by (simp add: configure_def load_example library_fields std_DecodeString_example
        convert_example translate_example)
qed

subsection \<open>The redirect URL, the secure flag and the constants\<close>

text \<open>
  \<^bold>\<open>C2.\<close> Whatever the value of \<^verbatim>\<open>OBOT_SERVER_URL\<close>, the redirect URL in the proxy options
  that \<^verbatim>\<open>main\<close> derives is that value followed by \<^verbatim>\<open>/oauth2/callback\<close>.
\<close>

theorem redirect_url:
  assumes "configure X env = Inr cfg"
  shows "RawRedirectURL cfg = os_Getenv env ''OBOT_SERVER_URL'' @ ''/oauth2/callback''"
proof -
  from assms obtain opts cookieSecret base
    where l: "LoadEnvForStruct (LoadEnv_error X) env = Inr opts"
      and c: "cfg = proxy_options opts cookieSecret base"
    by (rule configure_Inr)
  show ?thesis
    by (simp add: c proxy_options_fields LoadEnvForStruct_Inr(2)[OF l])
qed

theorem redirect_url_witness:
  "configure library environment = Inr derived_options
   \<and> RawRedirectURL derived_options = ''https://obot.example/oauth2/callback''"
  using redirect_url[OF configure_example] configure_example
  by (simp add: environment_def os_Getenv_def)

text \<open>
  \<^bold>\<open>C3.\<close> Whatever the value of \<^verbatim>\<open>OBOT_SERVER_URL\<close>, the secure flag of the cookie in the
  derived proxy options is true exactly when that value begins with \<^verbatim>\<open>https://\<close>.
\<close>

theorem secure_cookie:
  assumes "configure X env = Inr cfg"
  shows "Secure (Cookie cfg) = (\<exists>rest. os_Getenv env ''OBOT_SERVER_URL'' = ''https://'' @ rest)"
proof -
  from assms obtain opts cookieSecret base
    where l: "LoadEnvForStruct (LoadEnv_error X) env = Inr opts"
      and c: "cfg = proxy_options opts cookieSecret base"
    by (rule configure_Inr)
  show ?thesis
    by (simp only: c proxy_options_fields LoadEnvForStruct_Inr(2)[OF l] HasPrefix_iff)
qed

theorem secure_cookie_witness:
  "configure library environment = Inr derived_options \<and> Secure (Cookie derived_options)"
proof -
  have "os_Getenv environment ''OBOT_SERVER_URL'' = ''https://'' @ ''obot.example''"
    by (simp add: environment_def os_Getenv_def)
  then have "\<exists>rest. os_Getenv environment ''OBOT_SERVER_URL'' = ''https://'' @ rest" ..
  with secure_cookie[OF configure_example] configure_example show ?thesis by simp
qed

text \<open>
  \<^bold>\<open>C10.\<close> Once the options are translated, whatever the environment, the derived proxy
  options have the cookie name \<^verbatim>\<open>obot_access_token\<close>, a cookie refresh interval of one hour
  (3600 seconds, in nanoseconds), and an empty bind address both for the proxy's own
  server and for its metrics server.
\<close>

theorem fixed_settings:
  assumes "configure X env = Inr cfg"
  shows "Name (Cookie cfg) = ''obot_access_token''
       \<and> Refresh (Cookie cfg) = time_Hour \<and> time_Hour = 3600 * 10 ^ 9
       \<and> BindAddress (Server cfg) = []
       \<and> BindAddress (MetricsServer cfg) = []"
proof -
  from assms obtain opts cookieSecret base
    where "cfg = proxy_options opts cookieSecret base"
    by (rule configure_Inr)
  then show ?thesis
    by (simp add: proxy_options_fields time_Hour_ns)
qed

theorem fixed_settings_witness:
  "configure library environment = Inr derived_options
   \<and> Name (Cookie derived_options) = ''obot_access_token''
   \<and> Refresh (Cookie derived_options) = 3600000000000
   \<and> BindAddress (Server derived_options) = []
   \<and> BindAddress (MetricsServer derived_options) = []"
  using fixed_settings[OF configure_example] configure_example
  by simp

subsection \<open>The allowed e-mail domains\<close>

lemma os_Getenv_simps:
  "env key = None \<Longrightarrow> os_Getenv env key = []"
  "env key = Some v \<Longrightarrow> os_Getenv env key = v"
  by (simp_all add: os_Getenv_def)

lemma Split_example: "strings_Split ''a.com,b.com'' '','' = [''a.com'', ''b.com'']"
  by (simp add: strings_Split_def strings_HasPrefix_def)

lemma Split_star: "strings_Split ''*'' '','' = [''*'']"
  by (simp add: strings_Split_def strings_HasPrefix_def)

lemma configure_EmailDomains:
  assumes "configure X env = Inr cfg"
  shows "EmailDomains cfg =
           strings_Split (env_default ''*'' (os_Getenv env ''OBOT_AUTH_PROVIDER_EMAIL_DOMAINS'')) '',''"
proof -
  from assms obtain opts cookieSecret base
    where l: "LoadEnvForStruct (LoadEnv_error X) env = Inr opts"
      and c: "cfg = proxy_options opts cookieSecret base"
    by (rule configure_Inr)
  have "AuthEmailDomains opts \<noteq> []"
    by (simp add: LoadEnvForStruct_Inr(4)[OF l] env_default_def)
  then show ?thesis
    by (simp add: c proxy_options_fields LoadEnvForStruct_Inr(4)[OF l])
qed

lemma configure_example2:
  "configure library (environment(''OBOT_AUTH_PROVIDER_EMAIL_DOMAINS'' \<mapsto> ''a.com,b.com''))
     = Inr (derived_options\<lparr>EmailDomains := [''a.com'', ''b.com'']\<rparr>)"
  by (simp add: configure_def LoadEnvForStruct_def library_def environment_def os_Getenv_def
      env_default_def env_optional_def std_DecodeString_example legacy_options_def
      fresh_legacy_options_def proxy_options_def fresh_options_def derived_options_def
      strings_HasPrefix_def Split_example time_Hour_ns)

lemma configure_example_empty:
  "configure library (environment(''OBOT_AUTH_PROVIDER_EMAIL_DOMAINS'' \<mapsto> []))
     = Inr derived_options"
  by (simp add: configure_def LoadEnvForStruct_def library_def environment_def os_Getenv_def
      env_default_def env_optional_def std_DecodeString_example legacy_options_def
      fresh_legacy_options_def proxy_options_def fresh_options_def derived_options_def
      strings_HasPrefix_def Split_star time_Hour_ns)

text \<open>
  \<^bold>\<open>C1\<close>, as the claim has it, fails: with \<^verbatim>\<open>OBOT_AUTH_PROVIDER_EMAIL_DOMAINS\<close> unset the
  option has its declared default \<^verbatim>\<open>*\<close>, which is not empty, so line 84 replaces the list
  of the library (here the empty list) by the list of the one domain \<^verbatim>\<open>*\<close>.
\<close>

theorem email_domains_counterexample:
  "environment ''OBOT_AUTH_PROVIDER_EMAIL_DOMAINS'' = None
 \<and> LoadEnvForStruct (LoadEnv_error library) environment = Inr loaded_options
 \<and> AuthEmailDomains loaded_options = ''*''
 \<and> ToOptions library (legacy_options (NewLegacyOptions library) loaded_options) = Inr fresh_options
 \<and> configure library environment = Inr derived_options
 \<and> EmailDomains fresh_options = []
 \<and> EmailDomains derived_options = [''*'']
 \<and> EmailDomains derived_options \<noteq> EmailDomains fresh_options"
  by (simp add: load_example library_fields convert_example configure_example)
     (simp add: environment_def loaded_options_def fresh_options_def derived_options_def)

text \<open>
  \<^bold>\<open>C1\<close>, amended. With \<^verbatim>\<open>OBOT_AUTH_PROVIDER_EMAIL_DOMAINS\<close> unset or empty, the option
  has its declared default \<^verbatim>\<open>*\<close> and the list of allowed domains in the derived proxy
  options is the one domain \<^verbatim>\<open>*\<close>; with the variable set to \<^verbatim>\<open>a.com,b.com\<close>, the list is
  the two domains \<^verbatim>\<open>a.com\<close> and \<^verbatim>\<open>b.com\<close>. The loaded option is never empty, so line 84
  assigns the list in every case: it is the option split at its commas.
\<close>

theorem email_domains:
  "(LoadEnvForStruct (LoadEnv_error X) env = Inr loaded
      \<and> (env ''OBOT_AUTH_PROVIDER_EMAIL_DOMAINS'' = None
          \<or> env ''OBOT_AUTH_PROVIDER_EMAIL_DOMAINS'' = Some [])
      \<longrightarrow> AuthEmailDomains loaded = ''*'')
 \<and> (configure X env = Inr cfg
      \<and> (env ''OBOT_AUTH_PROVIDER_EMAIL_DOMAINS'' = None
          \<or> env ''OBOT_AUTH_PROVIDER_EMAIL_DOMAINS'' = Some [])
      \<longrightarrow> EmailDomains cfg = [''*''])
 \<and> (configure X env = Inr cfg \<and> env ''OBOT_AUTH_PROVIDER_EMAIL_DOMAINS'' = Some ''a.com,b.com''
      \<longrightarrow> EmailDomains cfg = [''a.com'', ''b.com''])
 \<and> (LoadEnvForStruct (LoadEnv_error X) env = Inr loaded
      \<longrightarrow> AuthEmailDomains loaded \<noteq> [])
 \<and> (LoadEnvForStruct (LoadEnv_error X) env = Inr loaded \<and> configure X env = Inr cfg
      \<longrightarrow> EmailDomains cfg = strings_Split (AuthEmailDomains loaded) '','')"
  by (auto simp: configure_EmailDomains os_Getenv_simps env_default_def Split_example Split_star
      LoadEnvForStruct_Inr(4))

theorem email_domains_witness:
  "LoadEnvForStruct (LoadEnv_error library) environment = Inr loaded_options
 \<and> configure library environment = Inr derived_options
 \<and> environment ''OBOT_AUTH_PROVIDER_EMAIL_DOMAINS'' = None
 \<and> AuthEmailDomains loaded_options = ''*''
 \<and> EmailDomains derived_options = [''*'']
 \<and> EmailDomains derived_options = strings_Split (AuthEmailDomains loaded_options) '',''
 \<and> (environment(''OBOT_AUTH_PROVIDER_EMAIL_DOMAINS'' \<mapsto> []))
      ''OBOT_AUTH_PROVIDER_EMAIL_DOMAINS'' = Some []
 \<and> map_sum id EmailDomains
      (configure library (environment(''OBOT_AUTH_PROVIDER_EMAIL_DOMAINS'' \<mapsto> [])))
      = Inr [''*'']
 \<and> (environment(''OBOT_AUTH_PROVIDER_EMAIL_DOMAINS'' \<mapsto> ''a.com,b.com''))
      ''OBOT_AUTH_PROVIDER_EMAIL_DOMAINS'' = Some ''a.com,b.com''
 \<and> map_sum id EmailDomains
      (configure library (environment(''OBOT_AUTH_PROVIDER_EMAIL_DOMAINS'' \<mapsto> ''a.com,b.com'')))
      = Inr [''a.com'', ''b.com'']"
proof -
  have unset: "environment ''OBOT_AUTH_PROVIDER_EMAIL_DOMAINS'' = None"
    by (simp add: environment_def)
  note at_example = email_domains[where X = library and env = environment
      and loaded = loaded_options and cfg = derived_options]
  have 1: "AuthEmailDomains loaded_options = ''*''"
    using at_example load_example unset by simp
  have 2: "EmailDomains derived_options = [''*'']"
    using at_example configure_example unset by simp
  have 3: "EmailDomains derived_options = strings_Split (AuthEmailDomains loaded_options) '',''"
    using at_example load_example configure_example by simp
  have 4: "EmailDomains derived_options = [''*'']"
    using email_domains[where X = library
        and env = "environment(''OBOT_AUTH_PROVIDER_EMAIL_DOMAINS'' \<mapsto> [])"
        and cfg = derived_options] configure_example_empty
    by simp
  have 5: "EmailDomains (derived_options\<lparr>EmailDomains := [''a.com'', ''b.com'']\<rparr>)
      = [''a.com'', ''b.com'']"
    using email_domains[where X = library
        and env = "environment(''OBOT_AUTH_PROVIDER_EMAIL_DOMAINS'' \<mapsto> ''a.com,b.com'')"
        and cfg = "derived_options\<lparr>EmailDomains := [''a.com'', ''b.com'']\<rparr>"] configure_example2
    by simp
  from 1 2 3 4 5 show ?thesis
    using load_example configure_example configure_example_empty configure_example2 unset
    by simp
qed

section \<open>Properties of the start-up and of serving\<close>

subsection \<open>The exits of \<^verbatim>\<open>main\<close>\<close>

lemma main_startup_Inl:
  assumes "startup X env = Inl f"
  shows "main X env =
    \<lparr> stdout = printed f, listener = None, exit_status = Some (status f), exit_at = Some (site f) \<rparr>"
  using assms by (simp add: main_def)

lemma main_Failure:
  assumes "startup X env = Inl (Failure s msg c)"
  shows "main X env = \<lparr> stdout = msg, listener = None, exit_status = Some c, exit_at = Some s \<rparr>"
  using main_startup_Inl[OF assms] by simp

lemma startup_configure_Inl: "configure X env = Inl f \<Longrightarrow> startup X env = Inl f"
  by (simp add: startup_def)

lemma LoadEnvForStruct_cases:
  obtains (failed) e where "le env = Some e" "LoadEnvForStruct le env = Inl e"
  | (loaded) opts where "le env = None" "LoadEnvForStruct le env = Inr opts"
  by (cases "le env") (auto simp: LoadEnvForStruct_def)

lemma configure_load_error:
  assumes "LoadEnv_error X env = Some e"
  shows "configure X env =
    Inl (Failure LoadOptions (''failed to load options: '' @ Error e @ ''\<newline>'') 1)"
  using assms by (simp add: configure_def LoadEnvForStruct_def fmt_v_def)

lemma configure_decode_error:
  assumes "LoadEnvForStruct (LoadEnv_error X) env = Inr opts"
    and "base64_DecodeString X (AuthCookieSecret opts) = Inl e"
  shows "configure X env =
    Inl (Failure DecodeCookieSecret (''failed to decode cookie secret: '' @ Error e @ ''\<newline>'') 1)"
  using assms by (simp add: configure_def fmt_v_def)

lemma configure_convert_error:
  assumes "LoadEnvForStruct (LoadEnv_error X) env = Inr opts"
    and "base64_DecodeString X (AuthCookieSecret opts) = Inr cookieSecret"
    and "ToOptions X (legacy_options (NewLegacyOptions X) opts) = Inl e"
  shows "configure X env =
    Inl (Failure ConvertLegacyOptions
          (''failed to convert legacy options to new options: '' @ Error e @ ''\<newline>'') 1)"
  using assms by (simp add: configure_def fmt_v_def)

lemma configure_success:
  assumes "LoadEnvForStruct (LoadEnv_error X) env = Inr opts"
    and "base64_DecodeString X (AuthCookieSecret opts) = Inr cookieSecret"
    and "ToOptions X (legacy_options (NewLegacyOptions X) opts) = Inr base"
  shows "configure X env = Inr (proxy_options opts cookieSecret base)"
  using assms by (simp add: configure_def)

lemma startup_validate_error:
  assumes "configure X env = Inr cfg" and "Validate X cfg = (validated, Some e)"
  shows "startup X env =
    Inl (Failure ValidateOptions (''failed to validate options: '' @ Error e @ ''\<newline>'') 1)"
  using assms by (simp add: startup_def fmt_v_def)

lemma startup_proxy_error:
  assumes "configure X env = Inr cfg" and "Validate X cfg = (validated, None)"
    and "NewOAuthProxy X validated
           (NewValidator X (EmailDomains validated) (AuthenticatedEmailsFile validated)) = Inl e"
  shows "startup X env =
    Inl (Failure CreateProxy (''failed to create oauth2 proxy: '' @ Error e @ ''\<newline>'') 1)"
  using assms by (simp add: startup_def fmt_v_def)

lemma startup_success:
  assumes "configure X env = Inr cfg" and "Validate X cfg = (validated, None)"
    and "NewOAuthProxy X validated
           (NewValidator X (EmailDomains validated) (AuthenticatedEmailsFile validated)) = Inr p"
  shows "startup X env =
    Inr \<lparr> srv_proxy = p,
          srv_port = (if os_Getenv env ''PORT'' = [] then ''9999'' else os_Getenv env ''PORT''),
          srv_mux = routes (if os_Getenv env ''PORT'' = [] then ''9999'' else os_Getenv env ''PORT'') p \<rparr>"
  using assms by (simp add: startup_def Let_def)

lemma startup_Inl_status:
  assumes "startup X env = Inl f"
  shows "status f = 1 \<and> printed f \<noteq> [] \<and>
         site f \<in> {LoadOptions, DecodeCookieSecret, ConvertLegacyOptions, ValidateOptions, CreateProxy}"
  using assms
  by (auto simp: startup_def configure_def Let_def
      split: sum.splits option.splits prod.splits)

lemma main_listen_error:
  assumes "startup X env = Inr srv"
    and "ListenAndServe X (''127.0.0.1:'' @ srv_port srv) (srv_mux srv) = Returns err"
    and "\<not> errors_Is err ErrServerClosed"
  shows "main X env =
    \<lparr> stdout = ''listening on 127.0.0.1:'' @ srv_port srv @ ''\<newline>''
               @ ''failed to listen and serve: '' @ fmt_v err @ ''\<newline>'',
      listener = Some (''127.0.0.1:'' @ srv_port srv, srv_mux srv),
      exit_status = Some 1, exit_at = Some ListenAndServeFailed \<rparr>"
  using assms by (simp add: main_def Let_def)

lemma main_server_closed:
  assumes "startup X env = Inr srv"
    and "ListenAndServe X (''127.0.0.1:'' @ srv_port srv) (srv_mux srv) = Returns err"
    and "errors_Is err ErrServerClosed"
  shows "main X env =
    \<lparr> stdout = ''listening on 127.0.0.1:'' @ srv_port srv @ ''\<newline>'',
      listener = Some (''127.0.0.1:'' @ srv_port srv, srv_mux srv),
      exit_status = Some 0, exit_at = None \<rparr>"
  using assms by (simp add: main_def Let_def)

lemma main_serving:
  assumes "startup X env = Inr srv"
    and "ListenAndServe X (''127.0.0.1:'' @ srv_port srv) (srv_mux srv) = Blocks"
  shows "main X env =
    \<lparr> stdout = ''listening on 127.0.0.1:'' @ srv_port srv @ ''\<newline>'',
      listener = Some (''127.0.0.1:'' @ srv_port srv, srv_mux srv),
      exit_status = None, exit_at = None \<rparr>"
  using assms by (simp add: main_def Let_def)

lemma main_exit_at_setup:
  "exit_at (main X env) = (case startup X env of Inl f \<Rightarrow> Some (site f)
      | Inr srv \<Rightarrow> (case ListenAndServe X (''127.0.0.1:'' @ srv_port srv) (srv_mux srv) of
          Blocks \<Rightarrow> None
        | Returns err \<Rightarrow> if errors_Is err ErrServerClosed then None else Some ListenAndServeFailed))"
  by (simp add: main_def Let_def split: sum.splits listen_result.splits)

text \<open>
  \<^bold>\<open>C4.\<close> Whatever the value of \<^verbatim>\<open>OBOT_AUTH_PROVIDER_COOKIE_SECRET\<close>: when the decoder
  accepts it, the process does not exit at the decode step, and with the options loaded
  it gets past both the load and the decode step; when the decoder rejects it, the
  process prints something and exits with status 1 without ever listening, and with the
  options loaded it is the exit of the decode step, with that step's message.
\<close>

theorem cookie_secret_decoding:
  "(base64_DecodeString X (os_Getenv env ''OBOT_AUTH_PROVIDER_COOKIE_SECRET'') = Inr cookieSecret
      \<longrightarrow> exit_at (main X env) \<noteq> Some DecodeCookieSecret)
 \<and> (base64_DecodeString X (os_Getenv env ''OBOT_AUTH_PROVIDER_COOKIE_SECRET'') = Inr cookieSecret
      \<and> LoadEnv_error X env = None
      \<longrightarrow> exit_at (main X env) \<noteq> Some LoadOptions
        \<and> exit_at (main X env) \<noteq> Some DecodeCookieSecret)
 \<and> (base64_DecodeString X (os_Getenv env ''OBOT_AUTH_PROVIDER_COOKIE_SECRET'') = Inl err
      \<longrightarrow> exit_status (main X env) = Some 1 \<and> listener (main X env) = None
        \<and> stdout (main X env) \<noteq> [])
 \<and> (base64_DecodeString X (os_Getenv env ''OBOT_AUTH_PROVIDER_COOKIE_SECRET'') = Inl err
      \<and> LoadEnv_error X env = None
      \<longrightarrow> main X env =
            \<lparr> stdout = ''failed to decode cookie secret: '' @ Error err @ ''\<newline>'',
              listener = None, exit_status = Some 1, exit_at = Some DecodeCookieSecret \<rparr>)"
proof (cases rule: LoadEnvForStruct_cases[of "LoadEnv_error X" env])
  case (failed e)
  have "main X env =
    \<lparr> stdout = ''failed to load options: '' @ Error e @ ''\<newline>'', listener = None,
      exit_status = Some 1, exit_at = Some LoadOptions \<rparr>"
    by (rule main_Failure[OF startup_configure_Inl[OF configure_load_error[OF failed(1)]]])
  with failed(1) show ?thesis by simp
next
  case (loaded opts)
  note secret = LoadEnvForStruct_Inr(3)[OF loaded(2)]
  show ?thesis
  proof (cases "base64_DecodeString X (os_Getenv env ''OBOT_AUTH_PROVIDER_COOKIE_SECRET'')")
    case (Inl e)
    have "main X env =
      \<lparr> stdout = ''failed to decode cookie secret: '' @ Error e @ ''\<newline>'', listener = None,
        exit_status = Some 1, exit_at = Some DecodeCookieSecret \<rparr>"
      using Inl secret
      by (intro main_Failure startup_configure_Inl configure_decode_error[OF loaded(2)]) simp
    with Inl show ?thesis by simp
  next
    case (Inr b)
    have "exit_at (main X env) \<noteq> Some LoadOptions \<and> exit_at (main X env) \<noteq> Some DecodeCookieSecret"
      using Inr secret loaded(2)
      by (auto simp: main_exit_at_setup startup_def configure_def Let_def
          split: sum.splits listen_result.splits prod.splits option.splits)
    with Inr show ?thesis by simp
  qed
qed


lemma std_DecodeString_garbage:
  "std_DecodeString ''not base64!'' = Inl (ErrorString ''illegal base64 data'')"
  by (simp add: std_DecodeString_def sextet_def base64_alphabet_def)

lemma std_DecodeString_empty: "std_DecodeString [] = Inr []"
  by (simp add: std_DecodeString_def)

lemma startup_example:
  "startup library environment =
     Inr \<lparr> srv_proxy = derived_options, srv_port = ''9999'',
           srv_mux = routes ''9999'' derived_options \<rparr>"
proof -
  have v: "Validate library derived_options = (derived_options, None)"
    by (simp add: library_def derived_options_def)
  have p: "NewOAuthProxy library derived_options
      (NewValidator library (EmailDomains derived_options) (AuthenticatedEmailsFile derived_options))
      = Inr derived_options"
    by (simp add: library_def derived_options_def)
  have "os_Getenv environment ''PORT'' = []"
    by (simp add: environment_def os_Getenv_def)
  with startup_success[OF configure_example v p] show ?thesis by simp
qed

theorem cookie_secret_decoding_witness:
  "base64_DecodeString library (os_Getenv environment ''OBOT_AUTH_PROVIDER_COOKIE_SECRET'')
     = Inr ''secret''
 \<and> LoadEnv_error library environment = None
 \<and> exit_at (main library environment) \<noteq> Some LoadOptions
 \<and> exit_at (main library environment) \<noteq> Some DecodeCookieSecret
 \<and> base64_DecodeString library
      (os_Getenv (environment(''OBOT_AUTH_PROVIDER_COOKIE_SECRET'' \<mapsto> ''not base64!''))
         ''OBOT_AUTH_PROVIDER_COOKIE_SECRET'')
     = Inl (ErrorString ''illegal base64 data'')
 \<and> LoadEnv_error library (environment(''OBOT_AUTH_PROVIDER_COOKIE_SECRET'' \<mapsto> ''not base64!'')) = None
 \<and> main library (environment(''OBOT_AUTH_PROVIDER_COOKIE_SECRET'' \<mapsto> ''not base64!'')) =
     \<lparr> stdout = ''failed to decode cookie secret: illegal base64 data\<newline>'',
       listener = None, exit_status = Some 1, exit_at = Some DecodeCookieSecret \<rparr>"
proof -
  let ?bad = "environment(''OBOT_AUTH_PROVIDER_COOKIE_SECRET'' \<mapsto> ''not base64!'')"
  have good: "base64_DecodeString library (os_Getenv environment ''OBOT_AUTH_PROVIDER_COOKIE_SECRET'')
      = Inr ''secret''"
    by (simp add: library_fields environment_def os_Getenv_def std_DecodeString_example)
  have bad: "base64_DecodeString library (os_Getenv ?bad ''OBOT_AUTH_PROVIDER_COOKIE_SECRET'')
      = Inl (ErrorString ''illegal base64 data'')"
    by (simp add: library_fields os_Getenv_def std_DecodeString_garbage)
  have loaded: "LoadEnv_error library environment = None" "LoadEnv_error library ?bad = None"
    by (simp_all add: library_def environment_def os_Getenv_def)
  have "exit_at (main library environment) \<noteq> Some LoadOptions
      \<and> exit_at (main library environment) \<noteq> Some DecodeCookieSecret"
    using cookie_secret_decoding[where X = library and env = environment
        and cookieSecret = "''secret''", THEN conjunct2, THEN conjunct1] good loaded(1)
    by simp
  moreover have "main library ?bad =
     \<lparr> stdout = ''failed to decode cookie secret: illegal base64 data\<newline>'',
       listener = None, exit_status = Some 1, exit_at = Some DecodeCookieSecret \<rparr>"
    using cookie_secret_decoding[where X = library and env = ?bad
        and err = "ErrorString ''illegal base64 data''",
        THEN conjunct2, THEN conjunct2, THEN conjunct2] bad loaded(2)
    by simp
  ultimately show ?thesis
    using good bad loaded by simp
qed

text \<open>
  \<^bold>\<open>C8.\<close> An error of any of the five steps before serving (loading the options, decoding
  the cookie secret, converting the legacy options, validating, creating the proxy) makes
  the process print that step's message and exit with status 1, and \<^verbatim>\<open>ListenAndServe\<close> is
  never called; no other failure of the start-up exists. Once \<^verbatim>\<open>ListenAndServe\<close>
  returns, an error that is not \<^verbatim>\<open>http.ErrServerClosed\<close> makes the process print a message
  and exit with status 1, and \<^verbatim>\<open>http.ErrServerClosed\<close> lets \<^verbatim>\<open>main\<close> return, with status 0.
\<close>

theorem errors_are_fatal:
  "(LoadEnv_error X env = Some e
      \<longrightarrow> main X env =
            \<lparr> stdout = ''failed to load options: '' @ Error e @ ''\<newline>'',
              listener = None, exit_status = Some 1, exit_at = Some LoadOptions \<rparr>)
 \<and> (LoadEnvForStruct (LoadEnv_error X) env = Inr opts
      \<and> base64_DecodeString X (AuthCookieSecret opts) = Inl e
      \<longrightarrow> main X env =
            \<lparr> stdout = ''failed to decode cookie secret: '' @ Error e @ ''\<newline>'',
              listener = None, exit_status = Some 1, exit_at = Some DecodeCookieSecret \<rparr>)
 \<and> (LoadEnvForStruct (LoadEnv_error X) env = Inr opts
      \<and> base64_DecodeString X (AuthCookieSecret opts) = Inr cookieSecret
      \<and> ToOptions X (legacy_options (NewLegacyOptions X) opts) = Inl e
      \<longrightarrow> main X env =
            \<lparr> stdout = ''failed to convert legacy options to new options: '' @ Error e @ ''\<newline>'',
              listener = None, exit_status = Some 1, exit_at = Some ConvertLegacyOptions \<rparr>)
 \<and> (configure X env = Inr cfg \<and> Validate X cfg = (validated, Some e)
      \<longrightarrow> main X env =
            \<lparr> stdout = ''failed to validate options: '' @ Error e @ ''\<newline>'',
              listener = None, exit_status = Some 1, exit_at = Some ValidateOptions \<rparr>)
 \<and> (configure X env = Inr cfg \<and> Validate X cfg = (validated, None)
      \<and> NewOAuthProxy X validated
           (NewValidator X (EmailDomains validated) (AuthenticatedEmailsFile validated)) = Inl e
      \<longrightarrow> main X env =
            \<lparr> stdout = ''failed to create oauth2 proxy: '' @ Error e @ ''\<newline>'',
              listener = None, exit_status = Some 1, exit_at = Some CreateProxy \<rparr>)
 \<and> (startup X env = Inl f
      \<longrightarrow> site f \<in> {LoadOptions, DecodeCookieSecret, ConvertLegacyOptions, ValidateOptions,
                    CreateProxy}
        \<and> printed f \<noteq> []
        \<and> main X env =
            \<lparr> stdout = printed f, listener = None, exit_status = Some 1,
              exit_at = Some (site f) \<rparr>)
 \<and> (startup X env = Inr srv
      \<and> ListenAndServe X (''127.0.0.1:'' @ srv_port srv) (srv_mux srv) = Returns err
      \<and> \<not> errors_Is err ErrServerClosed
      \<longrightarrow> main X env =
            \<lparr> stdout = ''listening on 127.0.0.1:'' @ srv_port srv @ ''\<newline>''
                       @ ''failed to listen and serve: '' @ fmt_v err @ ''\<newline>'',
              listener = Some (''127.0.0.1:'' @ srv_port srv, srv_mux srv),
              exit_status = Some 1, exit_at = Some ListenAndServeFailed \<rparr>)
 \<and> (startup X env = Inr srv
      \<and> ListenAndServe X (''127.0.0.1:'' @ srv_port srv) (srv_mux srv) = Returns err
      \<and> errors_Is err ErrServerClosed
      \<longrightarrow> main X env =
            \<lparr> stdout = ''listening on 127.0.0.1:'' @ srv_port srv @ ''\<newline>'',
              listener = Some (''127.0.0.1:'' @ srv_port srv, srv_mux srv),
              exit_status = Some 0, exit_at = None \<rparr>)"
proof (intro conjI impI; (elim conjE)?)
  assume "LoadEnv_error X env = Some e"
  then show "main X env =
      \<lparr> stdout = ''failed to load options: '' @ Error e @ ''\<newline>'',
        listener = None, exit_status = Some 1, exit_at = Some LoadOptions \<rparr>"
    by (intro main_Failure startup_configure_Inl configure_load_error)
next
  assume "LoadEnvForStruct (LoadEnv_error X) env = Inr opts"
    and "base64_DecodeString X (AuthCookieSecret opts) = Inl e"
  then show "main X env =
      \<lparr> stdout = ''failed to decode cookie secret: '' @ Error e @ ''\<newline>'',
        listener = None, exit_status = Some 1, exit_at = Some DecodeCookieSecret \<rparr>"
    by (intro main_Failure startup_configure_Inl configure_decode_error)
next
  assume "LoadEnvForStruct (LoadEnv_error X) env = Inr opts"
    and "base64_DecodeString X (AuthCookieSecret opts) = Inr cookieSecret"
    and "ToOptions X (legacy_options (NewLegacyOptions X) opts) = Inl e"
  then show "main X env =
      \<lparr> stdout = ''failed to convert legacy options to new options: '' @ Error e @ ''\<newline>'',
        listener = None, exit_status = Some 1, exit_at = Some ConvertLegacyOptions \<rparr>"
    by (intro main_Failure startup_configure_Inl configure_convert_error)
next
  assume "configure X env = Inr cfg" and "Validate X cfg = (validated, Some e)"
  then show "main X env =
      \<lparr> stdout = ''failed to validate options: '' @ Error e @ ''\<newline>'',
        listener = None, exit_status = Some 1, exit_at = Some ValidateOptions \<rparr>"
    by (intro main_Failure startup_validate_error)
next
  assume "configure X env = Inr cfg" and "Validate X cfg = (validated, None)"
    and "NewOAuthProxy X validated
           (NewValidator X (EmailDomains validated) (AuthenticatedEmailsFile validated)) = Inl e"
  then show "main X env =
      \<lparr> stdout = ''failed to create oauth2 proxy: '' @ Error e @ ''\<newline>'',
        listener = None, exit_status = Some 1, exit_at = Some CreateProxy \<rparr>"
    by (intro main_Failure startup_proxy_error)
next
  assume f: "startup X env = Inl f"
  from startup_Inl_status[OF f]
  show "site f \<in> {LoadOptions, DecodeCookieSecret, ConvertLegacyOptions, ValidateOptions,
                  CreateProxy}"
    by simp
  from startup_Inl_status[OF f] show "printed f \<noteq> []" by simp
  from startup_Inl_status[OF f] main_startup_Inl[OF f]
  show "main X env =
      \<lparr> stdout = printed f, listener = None, exit_status = Some 1, exit_at = Some (site f) \<rparr>"
    by simp
next
  assume "startup X env = Inr srv"
    and "ListenAndServe X (''127.0.0.1:'' @ srv_port srv) (srv_mux srv) = Returns err"
    and "\<not> errors_Is err ErrServerClosed"
  then show "main X env =
      \<lparr> stdout = ''listening on 127.0.0.1:'' @ srv_port srv @ ''\<newline>''
                 @ ''failed to listen and serve: '' @ fmt_v err @ ''\<newline>'',
        listener = Some (''127.0.0.1:'' @ srv_port srv, srv_mux srv),
        exit_status = Some 1, exit_at = Some ListenAndServeFailed \<rparr>"
    by (rule main_listen_error)
next
  assume "startup X env = Inr srv"
    and "ListenAndServe X (''127.0.0.1:'' @ srv_port srv) (srv_mux srv) = Returns err"
    and "errors_Is err ErrServerClosed"
  then show "main X env =
      \<lparr> stdout = ''listening on 127.0.0.1:'' @ srv_port srv @ ''\<newline>'',
        listener = Some (''127.0.0.1:'' @ srv_port srv, srv_mux srv),
        exit_status = Some 0, exit_at = None \<rparr>"
    by (rule main_server_closed)
qed


lemma configure_only_uses:
  "configure (X\<lparr>Validate := v\<rparr>) env = configure X env"
  "configure (X\<lparr>ListenAndServe := l\<rparr>) env = configure X env"
  by (simp_all add: configure_def split: sum.splits)

lemma startup_not_listening:
  "startup (X\<lparr>ListenAndServe := l\<rparr>) env = startup X env"
  by (simp add: startup_def configure_only_uses split: sum.splits prod.splits option.splits)

theorem errors_are_fatal_witness:
  "main library (environment(''OBOT_SERVER_URL'' := None)) =
     \<lparr> stdout = ''failed to load options: missing OBOT_SERVER_URL\<newline>'',
       listener = None, exit_status = Some 1, exit_at = Some LoadOptions \<rparr>
 \<and> main library (environment(''OBOT_AUTH_PROVIDER_COOKIE_SECRET'' \<mapsto> ''not base64!'')) =
     \<lparr> stdout = ''failed to decode cookie secret: illegal base64 data\<newline>'',
       listener = None, exit_status = Some 1, exit_at = Some DecodeCookieSecret \<rparr>
 \<and> main (library\<lparr>ToOptions := (\<lambda>legacyOpts. Inl (ErrorString ''unknown provider''))\<rparr>) environment =
     \<lparr> stdout = ''failed to convert legacy options to new options: unknown provider\<newline>'',
       listener = None, exit_status = Some 1, exit_at = Some ConvertLegacyOptions \<rparr>
 \<and> main (library\<lparr>Validate := (\<lambda>opts. (opts, Some (ErrorString ''invalid configuration'')))\<rparr>)
      environment =
     \<lparr> stdout = ''failed to validate options: invalid configuration\<newline>'',
       listener = None, exit_status = Some 1, exit_at = Some ValidateOptions \<rparr>
 \<and> main library (environment(''OBOT_AUTH_PROVIDER_COOKIE_SECRET'' \<mapsto> [])) =
     \<lparr> stdout = ''failed to create oauth2 proxy: missing setting: cookie-secret\<newline>'',
       listener = None, exit_status = Some 1, exit_at = Some CreateProxy \<rparr>
 \<and> main (library\<lparr>ListenAndServe := (\<lambda>addr m. Returns (Some (ErrorString ''address already in use'')))\<rparr>)
      environment =
     \<lparr> stdout = ''listening on 127.0.0.1:9999\<newline>failed to listen and serve: address already in use\<newline>'',
       listener = Some (''127.0.0.1:9999'', routes ''9999'' derived_options),
       exit_status = Some 1, exit_at = Some ListenAndServeFailed \<rparr>
 \<and> main library environment =
     \<lparr> stdout = ''listening on 127.0.0.1:9999\<newline>'',
       listener = Some (''127.0.0.1:9999'', routes ''9999'' derived_options),
       exit_status = Some 0, exit_at = None \<rparr>"
proof -
  let ?no_url = "environment(''OBOT_SERVER_URL'' := None)"
  let ?bad = "environment(''OBOT_AUTH_PROVIDER_COOKIE_SECRET'' \<mapsto> ''not base64!'')"
  let ?empty = "environment(''OBOT_AUTH_PROVIDER_COOKIE_SECRET'' \<mapsto> [])"
  let ?no_convert = "library\<lparr>ToOptions := (\<lambda>legacyOpts. Inl (ErrorString ''unknown provider''))\<rparr>"
  let ?no_validate =
    "library\<lparr>Validate := (\<lambda>opts. (opts, Some (ErrorString ''invalid configuration'')))\<rparr>"
  let ?no_listen =
    "library\<lparr>ListenAndServe := (\<lambda>addr m. Returns (Some (ErrorString ''address already in use'')))\<rparr>"

  have "LoadEnv_error library ?no_url = Some (ErrorString ''missing OBOT_SERVER_URL'')"
    by (simp add: library_def environment_def os_Getenv_def)
  from errors_are_fatal[where X = library and env = ?no_url, THEN conjunct1, rule_format, OF this]
  have 1: "main library ?no_url =
     \<lparr> stdout = ''failed to load options: missing OBOT_SERVER_URL\<newline>'',
       listener = None, exit_status = Some 1, exit_at = Some LoadOptions \<rparr>"
    by simp

  have "LoadEnvForStruct (LoadEnv_error library) ?bad
          = Inr (loaded_options\<lparr>AuthCookieSecret := ''not base64!''\<rparr>)
      \<and> base64_DecodeString library (AuthCookieSecret (loaded_options\<lparr>AuthCookieSecret := ''not base64!''\<rparr>))
          = Inl (ErrorString ''illegal base64 data'')"
    by (simp add: LoadEnvForStruct_def library_def environment_def os_Getenv_def loaded_options_def
        env_default_def env_optional_def std_DecodeString_garbage)
  from errors_are_fatal[where X = library and env = ?bad, THEN conjunct2, THEN conjunct1,
      rule_format, OF this]
  have 2: "main library ?bad =
     \<lparr> stdout = ''failed to decode cookie secret: illegal base64 data\<newline>'',
       listener = None, exit_status = Some 1, exit_at = Some DecodeCookieSecret \<rparr>"
    by simp

  have "LoadEnvForStruct (LoadEnv_error ?no_convert) environment = Inr loaded_options
      \<and> base64_DecodeString ?no_convert (AuthCookieSecret loaded_options) = Inr ''secret''
      \<and> ToOptions ?no_convert (legacy_options (NewLegacyOptions ?no_convert) loaded_options)
          = Inl (ErrorString ''unknown provider'')"
    using load_example
    by (simp add: library_def loaded_options_def std_DecodeString_example)
  from errors_are_fatal[where X = ?no_convert and env = environment,
      THEN conjunct2, THEN conjunct2, THEN conjunct1, rule_format, OF this]
  have 3: "main ?no_convert environment =
     \<lparr> stdout = ''failed to convert legacy options to new options: unknown provider\<newline>'',
       listener = None, exit_status = Some 1, exit_at = Some ConvertLegacyOptions \<rparr>"
    by simp

  have "configure ?no_validate environment = Inr derived_options
      \<and> Validate ?no_validate derived_options
          = (derived_options, Some (ErrorString ''invalid configuration''))"
    by (simp add: configure_only_uses configure_example)
  from errors_are_fatal[where X = ?no_validate and env = environment,
      THEN conjunct2, THEN conjunct2, THEN conjunct2, THEN conjunct1, rule_format, OF this]
  have 4: "main ?no_validate environment =
     \<lparr> stdout = ''failed to validate options: invalid configuration\<newline>'',
       listener = None, exit_status = Some 1, exit_at = Some ValidateOptions \<rparr>"
    by simp

  let ?no_secret = "derived_options\<lparr>Cookie := (Cookie derived_options)\<lparr>Secret := []\<rparr>\<rparr>"
  have "configure library ?empty = Inr ?no_secret
      \<and> Validate library ?no_secret = (?no_secret, None)
      \<and> NewOAuthProxy library ?no_secret
           (NewValidator library (EmailDomains ?no_secret) (AuthenticatedEmailsFile ?no_secret))
          = Inl (ErrorString ''missing setting: cookie-secret'')"
    by (simp add: configure_def LoadEnvForStruct_def library_def environment_def os_Getenv_def
        env_default_def env_optional_def std_DecodeString_empty legacy_options_def
        fresh_legacy_options_def proxy_options_def fresh_options_def derived_options_def
        strings_HasPrefix_def Split_star time_Hour_ns)
  from errors_are_fatal[where X = library and env = ?empty,
      THEN conjunct2, THEN conjunct2, THEN conjunct2, THEN conjunct2, THEN conjunct1,
      rule_format, OF this]
  have 5: "main library ?empty =
     \<lparr> stdout = ''failed to create oauth2 proxy: missing setting: cookie-secret\<newline>'',
       listener = None, exit_status = Some 1, exit_at = Some CreateProxy \<rparr>"
    by simp

  let ?srv = "\<lparr> srv_proxy = derived_options, srv_port = ''9999'',
                 srv_mux = routes ''9999'' derived_options \<rparr>"
  have "startup ?no_listen environment = Inr ?srv
      \<and> ListenAndServe ?no_listen (''127.0.0.1:'' @ srv_port ?srv) (srv_mux ?srv)
          = Returns (Some (ErrorString ''address already in use''))
      \<and> \<not> errors_Is (Some (ErrorString ''address already in use'')) ErrServerClosed"
    by (simp add: startup_not_listening startup_example errors_Is_def)
  from errors_are_fatal[where X = ?no_listen and env = environment,
      THEN conjunct2, THEN conjunct2, THEN conjunct2, THEN conjunct2, THEN conjunct2,
      THEN conjunct2, THEN conjunct1, rule_format, OF this]
  have 6: "main ?no_listen environment =
     \<lparr> stdout = ''listening on 127.0.0.1:9999\<newline>failed to listen and serve: address already in use\<newline>'',
       listener = Some (''127.0.0.1:9999'', routes ''9999'' derived_options),
       exit_status = Some 1, exit_at = Some ListenAndServeFailed \<rparr>"
    by (simp add: fmt_v_def)

  have "startup library environment = Inr ?srv
      \<and> ListenAndServe library (''127.0.0.1:'' @ srv_port ?srv) (srv_mux ?srv)
          = Returns (Some ErrServerClosed)
      \<and> errors_Is (Some ErrServerClosed) ErrServerClosed"
    by (simp add: startup_example errors_Is_def)
      (simp add: library_def)
  from errors_are_fatal[where X = library and env = environment,
      THEN conjunct2, THEN conjunct2, THEN conjunct2, THEN conjunct2, THEN conjunct2,
      THEN conjunct2, THEN conjunct2, rule_format, OF this]
  have 7: "main library environment =
     \<lparr> stdout = ''listening on 127.0.0.1:9999\<newline>'',
       listener = Some (''127.0.0.1:9999'', routes ''9999'' derived_options),
       exit_status = Some 0, exit_at = None \<rparr>"
    by simp

  from 1 2 3 4 5 6 7 show ?thesis by blast
qed

subsection \<open>The routes and the port\<close>

lemma startup_Inr:
  assumes "startup X env = Inr srv"
  shows "srv_port srv = (if os_Getenv env ''PORT'' = [] then ''9999'' else os_Getenv env ''PORT'')"
    and "srv_mux srv = routes (srv_port srv) (srv_proxy srv)"
  using assms
  by (auto simp: startup_def Let_def split: sum.splits prod.splits option.splits)

lemma matchPath_nil: "matchPath [] path = None"
  by (subst matchPath.simps) simp

lemma matchPath_end: "matchPath [([], l)] path = (if path = [] then Some l else None)"
  by (subst matchPath.simps) (simp add: node_pattern_def child_def matchPath_nil)

lemma tree_routes:
  "tree (routes port p) =
     [ ([Literal ''/''], [Literal ''/''], LocalBaseURL port),
       ([Literal ''obot-get-state''], [Literal ''obot-get-state''], ObotGetState p),
       ([Literal ''obot-get-icon-url''], [Literal ''obot-get-icon-url''],
          ObotGetIconURL FetchGitHubProfileIconURL),
       ([MultiWildcard], [MultiWildcard], OAuthProxyServeHTTP p) ]"
  by (simp add: tree_def routes_def parse_wildcard_def pathUnescape_def)

lemma child_routes:
  "child (Literal seg) (tree (routes port p)) =
     (if seg = ''/'' then [([], [Literal ''/''], LocalBaseURL port)]
      else if seg = ''obot-get-state'' then [([], [Literal ''obot-get-state''], ObotGetState p)]
      else if seg = ''obot-get-icon-url''
        then [([], [Literal ''obot-get-icon-url''], ObotGetIconURL FetchGitHubProfileIconURL)]
      else [])"
  "child Wildcard (tree (routes port p)) = []"
  "node_pattern (child MultiWildcard (tree (routes port p)))
     = Some ([MultiWildcard], OAuthProxyServeHTTP p)"
  by (auto simp: tree_routes child_def node_pattern_def)

lemma match_routes:
  assumes "path \<noteq> []"
  shows "matchPath (tree (routes port p)) path =
    Some (if snd (firstSegment path) = [] \<and> fst (firstSegment path) = ''/''
            then ([Literal ''/''], LocalBaseURL port)
          else if snd (firstSegment path) = [] \<and> fst (firstSegment path) = ''obot-get-state''
            then ([Literal ''obot-get-state''], ObotGetState p)
          else if snd (firstSegment path) = [] \<and> fst (firstSegment path) = ''obot-get-icon-url''
            then ([Literal ''obot-get-icon-url''], ObotGetIconURL FetchGitHubProfileIconURL)
          else ([MultiWildcard], OAuthProxyServeHTTP p))"
proof -
  have "tree (routes port p) \<noteq> []"
    by (simp add: tree_routes)
  with assms show ?thesis
    by (subst matchPath.simps)
       (simp add: child_routes matchPath_nil matchPath_end)
qed


lemma firstSegment_root: "firstSegment ''/'' = (''/'', [])"
  by (simp add: firstSegment_def)

lemma rest_after_slash:
  "x \<noteq> [] \<Longrightarrow> snd (firstSegment (CHR ''/'' # x @ ''/'')) \<noteq> []"
  by (simp add: firstSegment_def dropWhile_eq_Nil_conv)

lemma no_slash_redirect:
  "snd (matchOrRedirect (tree (routes port p)) (CHR ''/'' # x) b) = False"
proof (cases "x = [] \<or> last x = CHR ''/''")
  case True
  then have "strings_HasSuffix (CHR ''/'' # x) ''/''"
    by (cases x rule: rev_cases) (auto simp: strings_HasSuffix_def)
  then show ?thesis
    by (simp add: matchOrRedirect_def)
next
  case False
  then have x: "x \<noteq> []" by simp
  have "matchPath (tree (routes port p)) ((CHR ''/'' # x) @ ''/'')
      = Some ([MultiWildcard], OAuthProxyServeHTTP p)"
    using rest_after_slash[OF x] by (simp add: match_routes)
  moreover have "2 \<le> count_list ((CHR ''/'' # x) @ ''/'') (CHR ''/'')"
    by simp
  ultimately have "\<not> exactMatch (matchPath (tree (routes port p)) ((CHR ''/'' # x) @ ''/''))
      ((CHR ''/'' # x) @ ''/'')"
    by (simp add: exactMatch_def is_multi_def)
  then show ?thesis
    by (simp add: matchOrRedirect_def)
qed

lemma match_without_redirect:
  "fst (matchOrRedirect (tree (routes port p)) (CHR ''/'' # x) b)
     = matchPath (tree (routes port p)) (CHR ''/'' # x)"
  using no_slash_redirect[of port p x b]
  by (auto simp: matchOrRedirect_def split: if_splits)

lemma path_Clean_rooted: "\<exists>x. path_Clean p = CHR ''/'' # x"
  by (cases "clean_elements [] (strings_Split (tl p) ''/'')") (simp_all add: path_Clean_def)

lemma cleanPath_rooted: "\<exists>x. cleanPath p = CHR ''/'' # x"
proof -
  obtain x where "path_Clean (if hd p \<noteq> CHR ''/'' then CHR ''/'' # p else p) = CHR ''/'' # x"
    using path_Clean_rooted by blast
  then show ?thesis
    by (auto simp: cleanPath_def Let_def)
qed

lemma canonical_rooted:
  assumes "cleanPath path = path"
  obtains x where "path = CHR ''/'' # x"
  using cleanPath_rooted[of path] assms by auto

lemma serve_canonical:
  assumes "cleanPath path = path"
  shows "serve_request (routes port p) method path =
    Handler (if snd (firstSegment path) = [] \<and> fst (firstSegment path) = ''/''
               then LocalBaseURL port
             else if snd (firstSegment path) = [] \<and> fst (firstSegment path) = ''obot-get-state''
               then ObotGetState p
             else if snd (firstSegment path) = [] \<and> fst (firstSegment path) = ''obot-get-icon-url''
               then ObotGetIconURL FetchGitHubProfileIconURL
             else OAuthProxyServeHTTP p)"
proof -
  from assms obtain x where x: "path = CHR ''/'' # x"
    by (rule canonical_rooted)
  have "findHandler (routes port p) method path = found (matchPath (tree (routes port p)) path)"
    using assms
    by (simp add: findHandler_def x no_slash_redirect match_without_redirect)
  then show ?thesis
    by (simp add: serve_request_def x match_routes found_def)
qed




lemma cleanPath_examples:
  "cleanPath ''/'' = ''/''"
  "cleanPath ''/obot-get-state'' = ''/obot-get-state''"
  "cleanPath ''/obot-get-icon-url'' = ''/obot-get-icon-url''"
  by (simp_all add: cleanPath_def path_Clean_def strings_Split_def strings_HasPrefix_def)

lemma serve_root: "serve_request (routes port p) method ''/'' = Handler (LocalBaseURL port)"
  by (simp add: serve_canonical cleanPath_examples firstSegment_root)










text \<open>
  \<^bold>\<open>C6.\<close> Whatever the port \<open>p\<close> (the value of \<^verbatim>\<open>PORT\<close>, or 9999 without one), the
  handler of the path \<^verbatim>\<open>/\<close> writes the body \<^verbatim>\<open>http://127.0.0.1:\<close> followed by \<open>p\<close>, for
  \<^verbatim>\<open>GET\<close> as for any method; the scheme of \<^verbatim>\<open>OBOT_SERVER_URL\<close> plays no part in it.
\<close>

theorem root_response:
  assumes "startup X env = Inr srv"
  shows "\<exists>h. serve_request (srv_mux srv) method ''/'' = Handler h
           \<and> written_body h =
               Some (''http://127.0.0.1:'' @
                 (if os_Getenv env ''PORT'' = [] then ''9999'' else os_Getenv env ''PORT''))"
  by (simp add: startup_Inr(2)[OF assms] serve_root startup_Inr(1)[OF assms])

theorem root_response_witness:
  "startup library (environment(''PORT'' \<mapsto> ''8080'', ''OBOT_SERVER_URL'' \<mapsto> ''http://obot.example''))
    = Inr \<lparr> srv_proxy =
              derived_options\<lparr> Cookie := (Cookie derived_options)\<lparr>Secure := False\<rparr>,
                               RawRedirectURL := ''http://obot.example/oauth2/callback'' \<rparr>,
            srv_port = ''8080'',
            srv_mux = routes ''8080''
              (derived_options\<lparr> Cookie := (Cookie derived_options)\<lparr>Secure := False\<rparr>,
                               RawRedirectURL := ''http://obot.example/oauth2/callback'' \<rparr>) \<rparr>
 \<and> (case serve_request
           (routes ''8080''
             (derived_options\<lparr> Cookie := (Cookie derived_options)\<lparr>Secure := False\<rparr>,
                              RawRedirectURL := ''http://obot.example/oauth2/callback'' \<rparr>))
           ''GET'' ''/'' of
       Handler h \<Rightarrow> written_body h
     | _ \<Rightarrow> None)
    = Some ''http://127.0.0.1:8080''"
proof -
  let ?env = "environment(''PORT'' \<mapsto> ''8080'', ''OBOT_SERVER_URL'' \<mapsto> ''http://obot.example'')"
  let ?cfg = "derived_options\<lparr> Cookie := (Cookie derived_options)\<lparr>Secure := False\<rparr>,
                               RawRedirectURL := ''http://obot.example/oauth2/callback'' \<rparr>"
  have c: "configure library ?env = Inr ?cfg"
    by (simp add: configure_def LoadEnvForStruct_def library_def environment_def os_Getenv_def
        env_default_def env_optional_def std_DecodeString_example legacy_options_def
        fresh_legacy_options_def proxy_options_def fresh_options_def derived_options_def
        strings_HasPrefix_def Split_star time_Hour_ns)
  have v: "Validate library ?cfg = (?cfg, None)"
    by (simp add: library_def derived_options_def)
  have p: "NewOAuthProxy library ?cfg
      (NewValidator library (EmailDomains ?cfg) (AuthenticatedEmailsFile ?cfg)) = Inr ?cfg"
    by (simp add: library_def derived_options_def)
  have port: "os_Getenv ?env ''PORT'' = ''8080''"
    by (simp add: os_Getenv_def)
  have s: "startup library ?env =
      Inr \<lparr> srv_proxy = ?cfg, srv_port = ''8080'', srv_mux = routes ''8080'' ?cfg \<rparr>"
    using startup_success[OF c v p] port by simp
  from root_response[OF s, of "''GET''"] port s show ?thesis
    by auto
qed

text \<open>
  \<^bold>\<open>C7.\<close> With \<^verbatim>\<open>PORT\<close> unset or empty, the port is \<^verbatim>\<open>9999\<close> both in the body written for
  the path \<^verbatim>\<open>/\<close> and in the address given to \<^verbatim>\<open>ListenAndServe\<close>: the server listens on
  \<^verbatim>\<open>127.0.0.1:9999\<close>, and says so.
\<close>

theorem default_port:
  assumes "os_Getenv env ''PORT'' = []" and "startup X env = Inr srv"
  shows "srv_port srv = ''9999''
       \<and> (\<exists>h. serve_request (srv_mux srv) method ''/'' = Handler h
               \<and> written_body h = Some ''http://127.0.0.1:9999'')
       \<and> listener (main X env) = Some (''127.0.0.1:9999'', srv_mux srv)
       \<and> (\<exists>rest. stdout (main X env) = ''listening on 127.0.0.1:9999\<newline>'' @ rest)"
proof -
  have port: "srv_port srv = ''9999''"
    using startup_Inr(1)[OF assms(2)] assms(1) by simp
  have "\<exists>h. serve_request (srv_mux srv) method ''/'' = Handler h
        \<and> written_body h = Some ''http://127.0.0.1:9999''"
    by (simp add: startup_Inr(2)[OF assms(2)] serve_root port)
  moreover have "listener (main X env) = Some (''127.0.0.1:9999'', srv_mux srv)"
    using assms(2) port by (simp add: main_def Let_def split: listen_result.splits)
  moreover have "\<exists>rest. stdout (main X env) = ''listening on 127.0.0.1:9999\<newline>'' @ rest"
    using assms(2) port by (simp add: main_def Let_def split: listen_result.splits)
  ultimately show ?thesis
    using port by blast
qed

theorem default_port_witness:
  "os_Getenv environment ''PORT'' = []
 \<and> startup library environment =
     Inr \<lparr> srv_proxy = derived_options, srv_port = ''9999'',
           srv_mux = routes ''9999'' derived_options \<rparr>
 \<and> listener (main library environment) = Some (''127.0.0.1:9999'', routes ''9999'' derived_options)"
proof -
  have unset: "os_Getenv environment ''PORT'' = []"
    by (simp add: environment_def os_Getenv_def)
  from default_port[OF unset startup_example] unset startup_example
  show ?thesis by simp
qed

section \<open>Properties of the workspace script\<close>

lemma expand_plain:
  "CHR ''$'' \<notin> set pre \<Longrightarrow> expand vars None (pre @ rest) = pre @ expand vars None rest"
  by (induction pre) auto

lemma expand_plain_end: "CHR ''$'' \<notin> set doc \<Longrightarrow> expand vars None doc = doc"
  using expand_plain[of doc vars "[]"] by simp

lemma expand_FILES:
  "expand vars None (''$FILES'' @ CHR ''\<newline>'' # rest)
     = os_Getenv vars ''FILES'' @ CHR ''\<newline>'' # expand vars None rest"
  by (simp add: is_name_char_def parameter_def)

lemma here_document_parts:
  \<open>take 734 here_document =
     ''# START INSTRUCTIONS: "Workspace Files"\<newline>'' @
     ''\<newline>'' @
     ''You have the ability to read, write, and copy files in a workspace which is specific to your user. Use the given\<newline>'' @
     ''workspace_read, workspace_write, and workspace_copy tools to interact with files. The files that you write are available for the user\<newline>'' @
     ''to read and write in their user interface. You can collaborate with the user by reading and writing these files.\<newline>'' @
     ''Do not ask first to create files in the workspace. Immediately write contents to the workspace as opposed to describing\<newline>'' @
     ''the contents to the user. If the user changes a file, they will inform you that content has changed, with the new\<newline>'' @
     ''contents of the file. The current files are available in the workspace for you to read if needed.\<newline>'' @
     ''\<newline>''\<close>
  \<open>drop 740 here_document = ''\<newline># END INSTRUCTIONS: "Workspace Files"\<newline>''\<close>
  by (simp_all add: here_document_def)

lemma here_document_split:
  "here_document = take 734 here_document @ ''$FILES'' @ drop 740 here_document"
  unfolding here_document_parts by (simp add: here_document_def)

lemma plain_parts:
  "CHR ''$'' \<notin> set (take 734 here_document)"
  "CHR ''$'' \<notin> set (drop 740 here_document)"
  unfolding here_document_parts by simp_all

lemma expand_here_document:
  "expand vars None here_document
     = take 734 here_document @ os_Getenv vars ''FILES'' @ drop 740 here_document"
proof -
  obtain rest where rest: "drop 740 here_document = CHR ''\<newline>'' # rest"
    and plain: "CHR ''$'' \<notin> set rest"
    using here_document_parts(2) by simp
  have "expand vars None here_document
      = expand vars None (take 734 here_document @ ''$FILES'' @ CHR ''\<newline>'' # rest)"
    using here_document_split rest by simp
  also have "\<dots> = take 734 here_document @ expand vars None (''$FILES'' @ CHR ''\<newline>'' # rest)"
    by (rule expand_plain[OF plain_parts(1)])
  also have "\<dots> = take 734 here_document @ os_Getenv vars ''FILES'' @ CHR ''\<newline>'' # rest"
    by (simp only: expand_FILES expand_plain_end[OF plain])
  finally show ?thesis by (simp add: rest)
qed

text \<open>
  \<^bold>\<open>C9.\<close> The here-document is a fixed text around the one parameter \<^verbatim>\<open>$FILES\<close>. With
  \<^verbatim>\<open>GPTSCRIPT_CONTEXT\<close> empty or unset, the script prints that text with the sentence
  "No files found in workspace" in the place of the parameter; otherwise it prints it with
  the value of \<^verbatim>\<open>GPTSCRIPT_CONTEXT\<close> there, byte for byte, whatever the value contains.
\<close>

theorem workspace_instructions:
  "here_document = take 734 here_document @ ''$FILES'' @ drop 740 here_document
 \<and> (os_Getenv env ''GPTSCRIPT_CONTEXT'' = []
      \<longrightarrow> workspace_files env
            = take 734 here_document @ ''No files found in workspace'' @ drop 740 here_document)
 \<and> (os_Getenv env ''GPTSCRIPT_CONTEXT'' \<noteq> []
      \<longrightarrow> workspace_files env
            = take 734 here_document @ os_Getenv env ''GPTSCRIPT_CONTEXT''
                @ drop 740 here_document)"
  using here_document_split
  by (simp add: workspace_files_def Let_def expand_here_document os_Getenv_def)

theorem workspace_instructions_witness:
  \<open>workspace_files Map.empty
     = take 734 here_document @ ''No files found in workspace''
         @ ''\<newline># END INSTRUCTIONS: "Workspace Files"\<newline>''
 \<and> workspace_files [''GPTSCRIPT_CONTEXT'' \<mapsto> ''notes.txt\<newline>$FILES $(date) `id`'']
     = take 734 here_document @ ''notes.txt\<newline>$FILES $(date) `id`''
         @ ''\<newline># END INSTRUCTIONS: "Workspace Files"\<newline>''\<close>
proof -
  have "os_Getenv Map.empty ''GPTSCRIPT_CONTEXT'' = []"
    by (simp add: os_Getenv_def)
  with workspace_instructions[of Map.empty]
  have 1: "workspace_files Map.empty
      = take 734 here_document @ ''No files found in workspace'' @ drop 740 here_document"
    by simp
  let ?env = "[''GPTSCRIPT_CONTEXT'' \<mapsto> ''notes.txt\<newline>$FILES $(date) `id`'']"
  have "os_Getenv ?env ''GPTSCRIPT_CONTEXT'' = ''notes.txt\<newline>$FILES $(date) `id`''"
    by (simp add: os_Getenv_def)
  with workspace_instructions[of ?env]
  have 2: "workspace_files ?env
      = take 734 here_document @ ''notes.txt\<newline>$FILES $(date) `id`'' @ drop 740 here_document"
    by simp
  from 1 2 show ?thesis
    by (simp only: here_document_parts(2))
qed

end
